theory Spec2Isabelle
  imports Main "HOL-Library.Word"
begin

unbundle bit_operations_syntax

section \<open>Values, errors and the compound container\<close>

type_synonym bytes = "8 word list"

text \<open>The exceptions that the modelled code raises or lets through.\<close>

datatype error =
    StandardViolationError
  | ReferenceError
  | NotImplementedError
  | UnsupportedEncodingError
  | UnicodeDecodeError
  | InvalidPropertyIdError
  | UnknownTypeError
  | TypeError
  | ValueError
  | IndexError
  | IOError

text \<open>Python values that flow through the accessors (\<open>Any\<close> in the source).\<close>

datatype pyval =
    PNone
  | PBool bool
  | PInt int
  | PBytes bytes
  | PStr string
  | PList "pyval list"

text \<open>A path argument is a string or a sequence of segments.\<close>

datatype MSG_PATH = PathStr string | PathList "string list"

text \<open>
  The opened container (\<open>olefile.OleFileIO\<close>, an external library) is taken through the
  three calls the code makes on it: \<open>exists\<close>, \<open>openstream(...).read()\<close> and
  \<open>listdir(streams, storages)\<close>.
\<close>

record OleFileIO =
  ole_exists :: "string \<Rightarrow> bool"
  ole_openstream :: "string \<Rightarrow> error + bytes"
  ole_listdir :: "bool \<Rightarrow> bool \<Rightarrow> string list list"

datatype ErrorBehavior = STANDARDS_VIOLATION | OLE_DEFECT_INCORRECT | OTHER_FLAG nat

datatype PropertiesType = MESSAGE | MESSAGE_EMBED | RECIPIENT

text \<open>A record of the property store: a fixed-length property carries its value inline,
  a variable-length one only its declared lengths.\<close>

datatype PropBase = FixedLengthProp pyval | VariableLengthProp nat nat

type_synonym PropertiesStore = "(string \<times> PropBase) list"

datatype log_level = INFO | WARNING | ERROR

datatype log_message =
    StreamNotFound string
  | NoPropertyStream
  | EncodingNotFound
  | MultipleBinaryIncomplete
  | MultipleStringIncomplete
  | NoMatchingVariableLengthProp string

text \<open>
  The attributes of an \<open>MSGFile\<close> fixed by \<open>__init__\<close> ...
\<close>

record MSGFile =
  ole :: OleFileIO
  prefix :: string
  prefixList :: "string list"
  prefixLen :: nat
  errorBehavior :: "ErrorBehavior list"
  overrideEncoding :: "string option"

text \<open>
  ... and the attributes filled in lazily (the \<open>cached_property\<close> cells, the
  \<open>__stringEncoding\<close> attribute, the \<open>__listDirRes\<close> dictionary), together with the
  records handed to the module logger. Every operation takes this state and returns it
  updated, also when it raises.
\<close>

record lazy =
  props_cell :: "PropertiesStore option"
  areStringsUnicode_cell :: "bool option"
  stringEncoding_attr :: "string option"
  listDirRes :: "(bool \<times> bool \<times> bool) \<rightharpoonup> string list list"
  logged :: "(log_level \<times> log_message) list"

type_synonym 'a M = "lazy \<Rightarrow> (error + 'a) \<times> lazy"

definition return :: "'a \<Rightarrow> 'a M" where
  "return a s = (Inr a, s)"

definition raise :: "error \<Rightarrow> 'a M" where
  "raise e s = (Inl e, s)"

definition bind :: "'a M \<Rightarrow> ('a \<Rightarrow> 'b M) \<Rightarrow> 'b M" where
  "bind m f s = (case m s of (Inl e, s') \<Rightarrow> (Inl e, s') | (Inr a, s') \<Rightarrow> f a s')"

definition logger :: "log_level \<Rightarrow> log_message \<Rightarrow> unit M" where
  "logger lvl msg s = (Inr (), s\<lparr>logged := logged s @ [(lvl, msg)]\<rparr>)"

text \<open>A list comprehension whose element expression has effects.\<close>

fun mapM :: "('a \<Rightarrow> 'b M) \<Rightarrow> 'a list \<Rightarrow> 'b list M" where
  "mapM f [] = return []"
| "mapM f (x # xs) = bind (f x) (\<lambda>y. bind (mapM f xs) (\<lambda>ys. return (y # ys)))"

text \<open>
  The parts of the package and of the Python runtime that the modelled functions call but
  that are not among the sources: the codec behind \<open>bytes.decode\<close>, \<open>utils.parseType\<close>,
  the slot parser of \<open>PropertiesStore\<close>, the code page table of \<open>encoding\<close>, the
  type tables of \<open>constants\<close>, and the builtin \<open>int(s, 16)\<close>.
\<close>

record deps =
  decode :: "string \<Rightarrow> bytes \<Rightarrow> error + string"
  parseType :: "int \<Rightarrow> pyval \<Rightarrow> string \<Rightarrow> pyval list \<Rightarrow> error + pyval"
  parseProperties :: "bytes \<Rightarrow> PropertiesType \<Rightarrow> PropertiesStore"
  codePages :: "(int \<times> string) list"
  FIXED_LENGTH_PROPS_STRING :: "string list"
  VARIABLE_LENGTH_PROPS_STRING :: "string list"
  MULTIPLE_2_BYTES :: "string list"
  MULTIPLE_4_BYTES :: "string list"
  MULTIPLE_8_BYTES :: "string list"
  int16 :: "string \<Rightarrow> error + int"

section \<open>Strings\<close>

definition startswith :: "string \<Rightarrow> string \<Rightarrow> bool" where
  "startswith x p = (take (length p) x = p)"

fun join :: "string \<Rightarrow> string list \<Rightarrow> string" where
  "join sep [] = []"
| "join sep [x] = x"
| "join sep (x # y # ys) = x @ sep @ join sep (y # ys)"

text \<open>\<open>str.split(c)\<close> for a one-character separator: never the empty list.\<close>

fun split :: "char \<Rightarrow> string \<Rightarrow> string list" where
  "split c [] = [[]]"
| "split c (x # xs) =
     (if x = c then [] # split c xs
      else (case split c xs of [] \<Rightarrow> [[x]] | w # ws \<Rightarrow> (x # w) # ws))"

definition hexdigit :: "nat \<Rightarrow> char" where
  "hexdigit d = (''0123456789ABCDEF'' ! d)"

function hexU :: "nat \<Rightarrow> string" where
  "hexU n = (if n < 16 then [hexdigit n] else hexU (n div 16) @ [hexdigit (n mod 16)])"
  by pat_completeness auto
termination
  by (relation "measure id") auto

text \<open>The format specification \<open>{x:08X}\<close>: upper-case hexadecimal, zero-padded to eight
  digits, longer when the number needs more.\<close>

definition fmt08X :: "nat \<Rightarrow> string" where
  "fmt08X n = replicate (8 - length (hexU n)) (CHR ''0'') @ hexU n"

text \<open>Modelled from the spec: \<open>utils.msgPathToString\<close> is not among the sources; a path
  is an ordered sequence of segments, written as a string with the separator \<open>/\<close>.\<close>

fun msgPathToString :: "MSG_PATH \<Rightarrow> string" where
  "msgPathToString (PathStr s) = s"
| "msgPathToString (PathList xs) = join ''/'' xs"

section \<open>Container adapter\<close>

definition fixPath :: "MSGFile \<Rightarrow> MSG_PATH \<Rightarrow> bool \<Rightarrow> string" where
  "fixPath m inp pre =
     (let inp' = msgPathToString inp in if pre then prefix m @ inp' else inp')"

definition exists :: "MSGFile \<Rightarrow> MSG_PATH \<Rightarrow> bool \<Rightarrow> bool" where
  "exists m inp pre = ole_exists (ole m) (fixPath m inp pre)"

definition sExists :: "MSGFile \<Rightarrow> MSG_PATH \<Rightarrow> bool \<Rightarrow> bool" where
  "sExists m inp pre =
     (let inp' = fixPath m inp pre
      in exists m (PathStr (inp' @ ''001F'')) True \<or> exists m (PathStr (inp' @ ''001E'')) True)"

definition getStream :: "MSGFile \<Rightarrow> MSG_PATH \<Rightarrow> bool \<Rightarrow> bytes option M" where
  "getStream m filename pre =
     (let filename' = fixPath m filename pre
      in if exists m (PathStr filename') False
         then (case ole_openstream (ole m) filename' of
                 Inl e \<Rightarrow> raise e
               | Inr b \<Rightarrow> return (Some b))
         else bind (logger INFO (StreamNotFound filename')) (\<lambda>_. return None))"

definition listDir :: "MSGFile \<Rightarrow> bool \<Rightarrow> bool \<Rightarrow> bool \<Rightarrow> string list list M" where
  "listDir m streams storages includePrefix s =
     (case listDirRes s (streams, storages, includePrefix) of
        Some r \<Rightarrow> (Inr r, s)
      | None \<Rightarrow>
          (let entries = ole_listdir (ole m) streams storages
           in if prefix m = [] then (Inr entries, s)
              else
                (let pl = split (CHR ''/'') (prefix m);
                     pl' = (if last pl = [] then butlast pl else pl);
                     prefixLength = prefixLen m;
                     entries' = filter (\<lambda>x. length x > prefixLength \<and> take prefixLength x = pl') entries;
                     entries'' = (if \<not> includePrefix then map (drop prefixLength) entries' else entries')
                 in (Inr entries'',
                     s\<lparr>listDirRes := (listDirRes s)((streams, storages, includePrefix) \<mapsto> entries'')\<rparr>))))"

definition slistDir :: "MSGFile \<Rightarrow> bool \<Rightarrow> bool \<Rightarrow> bool \<Rightarrow> string list M" where
  "slistDir m streams storages includePrefix =
     bind (listDir m streams storages includePrefix)
       (\<lambda>r. return (map (\<lambda>x. msgPathToString (PathList x)) r))"

section \<open>Multi-valued binary sets\<close>

text \<open>\<open>next((x for x in ret if x is None), -1)\<close>: the first element that is \<open>None\<close>
  (the element, not its position), or the default \<open>-1\<close>.\<close>

definition next_None :: "bytes option list \<Rightarrow> bytes option + int" where
  "next_None ret = (case filter (\<lambda>x. x = None) ret of [] \<Rightarrow> Inr (- 1) | x # _ \<Rightarrow> Inl x)"

text \<open>The slice \<open>ret[:index]\<close> for an integer bound.\<close>

definition slice_to :: "'a list \<Rightarrow> int \<Rightarrow> 'a list" where
  "slice_to xs i = (if i < 0 then take (nat (int (length xs) + i)) xs else take (nat i) xs)"

definition getMultipleBinary :: "MSGFile \<Rightarrow> MSG_PATH \<Rightarrow> bool \<Rightarrow> bytes option list option M" where
  "getMultipleBinary m filename pre =
     (let filename' = fixPath m filename pre @ ''1102''
      in bind (getStream m (PathStr filename') True) (\<lambda>multStream.
           case multStream of
             None \<Rightarrow> return None
           | Some ms \<Rightarrow>
               if length ms = 0 then return (Some [])
               else if length ms AND 7 \<noteq> 0 then raise StandardViolationError
               else
                 bind (mapM (\<lambda>x. getStream m (PathStr (filename' @ ''-'' @ fmt08X x)) True)
                            [0 ..< length ms div 8]) (\<lambda>ret.
                   case next_None ret of
                     Inr index \<Rightarrow>
                       if index \<noteq> - 1
                       then bind (logger ERROR MultipleBinaryIncomplete)
                                 (\<lambda>_. return (Some (slice_to ret index)))
                       else return (Some ret)
                   | Inl None \<Rightarrow>
                       bind (logger ERROR MultipleBinaryIncomplete) (\<lambda>_. return (Some ret))
                   | Inl (Some _) \<Rightarrow>
                       bind (logger ERROR MultipleBinaryIncomplete) (\<lambda>_. raise TypeError))))"

section \<open>Property store\<close>

definition lift :: "error + 'a \<Rightarrow> 'a M" where
  "lift r = (case r of Inl e \<Rightarrow> raise e | Inr a \<Rightarrow> return a)"

text \<open>Modelled from the spec: the class \<open>PropertiesStore\<close> is not among the sources. Built
  from the property-record stream; an absent stream gives a store with zero records.\<close>

definition PropertiesStore :: "deps \<Rightarrow> bytes option \<Rightarrow> PropertiesType \<Rightarrow> PropertiesStore" where
  "PropertiesStore E data t = (case data of None \<Rightarrow> [] | Some b \<Rightarrow> parseProperties E b t)"

text \<open>Modelled from the spec: \<open>getProperties(id)\<close> gives all records matching this id
  regardless of type suffix.\<close>

definition getProperties :: "PropertiesStore \<Rightarrow> string \<Rightarrow> PropBase list" where
  "getProperties p ident = map snd (filter (\<lambda>kv. startswith (fst kv) ident) p)"

fun first_fixed :: "PropBase list \<Rightarrow> pyval option" where
  "first_fixed [] = None"
| "first_fixed (FixedLengthProp v # _) = Some v"
| "first_fixed (VariableLengthProp _ _ # ps) = first_fixed ps"

text \<open>Modelled from the spec: \<open>getValue(tag, default)\<close> gives the inline value of the
  record addressed by the tag; \<open>None\<close> here stands for the default being returned.\<close>

definition getValue :: "PropertiesStore \<Rightarrow> string \<Rightarrow> pyval option" where
  "getValue p name = first_fixed (getProperties p name)"

text \<open>Modelled from the spec: \<open>contains(idPrefix)\<close>.\<close>

definition contains :: "PropertiesStore \<Rightarrow> string \<Rightarrow> bool" where
  "contains p key = list_ex (\<lambda>kv. startswith (fst kv) key) p"

text \<open>Modelled from the spec: \<open>encoding.lookupCodePage\<close> is not among the sources; a fixed
  table from code page numbers to encodings, an unknown code page being an
  unsupported-encoding failure.\<close>

definition lookupCodePage :: "deps \<Rightarrow> pyval \<Rightarrow> error + string" where
  "lookupCodePage E v =
     (case v of
        PInt cp \<Rightarrow> (case map_of (codePages E) cp of
                      None \<Rightarrow> Inl UnsupportedEncodingError
                    | Some enc \<Rightarrow> Inr enc)
      | _ \<Rightarrow> Inl UnsupportedEncodingError)"

definition props :: "deps \<Rightarrow> MSGFile \<Rightarrow> PropertiesStore M" where
  "props E m s =
     (case props_cell s of
        Some p \<Rightarrow> (Inr p, s)
      | None \<Rightarrow>
          bind (getStream m (PathStr ''__properties_version1.0'') True) (\<lambda>stream.
            bind (if stream = None \<or> stream = Some []
                  then (if STANDARDS_VIOLATION \<in> set (errorBehavior m)
                        then logger ERROR NoPropertyStream
                        else raise StandardViolationError)
                  else return ()) (\<lambda>_.
              (let p = PropertiesStore E stream (if prefix m = [] then MESSAGE else MESSAGE_EMBED)
               in (\<lambda>s'. (Inr p, s'\<lparr>props_cell := Some p\<rparr>))))) s)"

definition getPropertyVal :: "deps \<Rightarrow> MSGFile \<Rightarrow> string \<Rightarrow> pyval \<Rightarrow> pyval M" where
  "getPropertyVal E m name dflt =
     bind (props E m) (\<lambda>p. return (case getValue p name of None \<Rightarrow> dflt | Some v \<Rightarrow> v))"

section \<open>Encoding resolver\<close>

definition areStringsUnicode :: "deps \<Rightarrow> MSGFile \<Rightarrow> bool M" where
  "areStringsUnicode E m s =
     (case areStringsUnicode_cell s of
        Some u \<Rightarrow> (Inr u, s)
      | None \<Rightarrow>
          bind (getPropertyVal E m ''340D0003'' (PInt 0)) (\<lambda>v.
            bind (case v of
                    PInt n \<Rightarrow> return ((n AND 0x40000) \<noteq> 0)
                  | PBool b \<Rightarrow> return (((if b then 1 else 0 :: int) AND 0x40000) \<noteq> 0)
                  | _ \<Rightarrow> raise TypeError) (\<lambda>u.
              (\<lambda>s'. (Inr u, s'\<lparr>areStringsUnicode_cell := Some u\<rparr>)))) s)"

definition set_stringEncoding :: "string \<Rightarrow> string M" where
  "set_stringEncoding enc s = (Inr enc, s\<lparr>stringEncoding_attr := Some enc\<rparr>)"

definition stringEncoding :: "deps \<Rightarrow> MSGFile \<Rightarrow> string M" where
  "stringEncoding E m s =
     (case stringEncoding_attr s of
        Some enc \<Rightarrow> (Inr enc, s)
      | None \<Rightarrow>
          bind (areStringsUnicode E m) (\<lambda>u.
            if u then set_stringEncoding ''utf-16-le''
            else
              bind (props E m) (\<lambda>p.
                if \<not> contains p ''3FFD0003''
                then bind (logger WARNING EncodingNotFound)
                          (\<lambda>_. set_stringEncoding ''iso-8859-15'')
                else
                  bind (getPropertyVal E m ''3FFD0003'' PNone) (\<lambda>enc.
                    bind (lift (lookupCodePage E enc)) set_stringEncoding))) s)"

text \<open>The lazy attributes before any of them has been computed: \<open>__init__\<close> sets only
  \<open>__stringEncoding\<close>, and only when an overriding encoding was given.\<close>

definition init_lazy :: "MSGFile \<Rightarrow> lazy" where
  "init_lazy m =
     \<lparr>props_cell = None, areStringsUnicode_cell = None,
      stringEncoding_attr = overrideEncoding m, listDirRes = Map.empty, logged = []\<rparr>"

section \<open>Strings and multi-valued string sets\<close>

text \<open>Modelled from the spec: \<open>utils.windowsUnicode\<close> is not among the sources; UTF-16LE
  decoding, an absent stream giving none.\<close>

definition windowsUnicode :: "deps \<Rightarrow> bytes option \<Rightarrow> string option M" where
  "windowsUnicode E b =
     (case b of
        None \<Rightarrow> return None
      | Some x \<Rightarrow> bind (lift (decode E ''utf-16-le'' x)) (\<lambda>t. return (Some t)))"

definition getStringStream :: "deps \<Rightarrow> MSGFile \<Rightarrow> MSG_PATH \<Rightarrow> bool \<Rightarrow> string option M" where
  "getStringStream E m filename pre =
     (let filename' = fixPath m filename pre
      in bind (areStringsUnicode E m) (\<lambda>u.
           if u then bind (getStream m (PathStr (filename' @ ''001F'')) False) (windowsUnicode E)
           else
             bind (getStream m (PathStr (filename' @ ''001E'')) False) (\<lambda>tmp.
               case tmp of
                 None \<Rightarrow> return None
               | Some t \<Rightarrow>
                   bind (stringEncoding E m) (\<lambda>enc.
                     bind (lift (decode E enc t)) (\<lambda>r. return (Some r))))))"

text \<open>The loop over \<open>enumerate(ret)\<close>: \<open>acc\<close> holds the entries already decoded, which are
  exactly \<open>ret[:index]\<close> when a missing entry is met.\<close>

fun decode_entries :: "deps \<Rightarrow> MSGFile \<Rightarrow> bytes option list \<Rightarrow> string list \<Rightarrow> string list M" where
  "decode_entries E m [] acc = return acc"
| "decode_entries E m (None # rest) acc =
     bind (logger ERROR MultipleStringIncomplete) (\<lambda>_. return acc)"
| "decode_entries E m (Some item # rest) acc =
     bind (stringEncoding E m) (\<lambda>enc.
       bind (lift (decode E enc item)) (\<lambda>t. decode_entries E m rest (acc @ [butlast t])))"

definition getMultipleString :: "deps \<Rightarrow> MSGFile \<Rightarrow> MSG_PATH \<Rightarrow> bool \<Rightarrow> string list M" where
  "getMultipleString E m filename pre =
     bind (areStringsUnicode E m) (\<lambda>u.
       (let filename' = (if u then fixPath m filename pre @ ''101F'' else ''101E'')
        in bind (getStream m (PathStr filename') True) (\<lambda>multStream.
             case multStream of
               None \<Rightarrow> return []
             | Some ms \<Rightarrow>
                 if length ms = 0 then return []
                 else if length ms AND 3 \<noteq> 0 then raise StandardViolationError
                 else
                   bind (mapM (\<lambda>x. getStream m (PathStr (filename' @ ''-'' @ fmt08X x)) True)
                              [0 ..< length ms div 4])
                        (\<lambda>ret. decode_entries E m ret []))))"

section \<open>Single-or-multiple accessors\<close>

definition pyopt :: "bytes option \<Rightarrow> pyval" where
  "pyopt b = (case b of None \<Rightarrow> PNone | Some x \<Rightarrow> PBytes x)"

definition getSingleOrMultipleBinary :: "MSGFile \<Rightarrow> MSG_PATH \<Rightarrow> bool \<Rightarrow> pyval M" where
  "getSingleOrMultipleBinary m filename pre =
     (let filename' = fixPath m filename pre
      in bind (getStream m (PathStr (filename' @ ''0102'')) False) (\<lambda>ret.
           case ret of
             Some b \<Rightarrow> return (PBytes b)
           | None \<Rightarrow>
               bind (getMultipleBinary m (PathStr filename') False) (\<lambda>r.
                 return (case r of None \<Rightarrow> PNone | Some xs \<Rightarrow> PList (map pyopt xs)))))"

definition getSingleOrMultipleString :: "deps \<Rightarrow> MSGFile \<Rightarrow> MSG_PATH \<Rightarrow> bool \<Rightarrow> pyval M" where
  "getSingleOrMultipleString E m filename pre =
     (let filename' = fixPath m filename pre
      in bind (getStringStream E m (PathStr filename') False) (\<lambda>ret.
           case ret of
             Some t \<Rightarrow> return (PStr t)
           | None \<Rightarrow>
               bind (getMultipleString E m (PathStr filename') False) (\<lambda>r.
                 return (PList (map PStr r)))))"

section \<open>Typed resolver\<close>

definition ishex :: "char \<Rightarrow> bool" where
  "ishex c = (c \<in> set ''0123456789abcdefABCDEF'')"

definition upper_char :: "char \<Rightarrow> char" where
  "upper_char c =
     (case map_of (zip ''abcdefghijklmnopqrstuvwxyz'' ''ABCDEFGHIJKLMNOPQRSTUVWXYZ'') c of
        None \<Rightarrow> c
      | Some u \<Rightarrow> u)"

definition upper :: "string \<Rightarrow> string" where
  "upper t = map upper_char t"

text \<open>The slice \<open>x[-n:]\<close>.\<close>

definition lastn :: "nat \<Rightarrow> 'a list \<Rightarrow> 'a list" where
  "lastn n xs = drop (length xs - n) xs"

text \<open>Modelled from the spec: \<open>utils.verifyPropertyId\<close> is not among the sources; a
  property identifier is four hexadecimal digits.\<close>

definition verifyPropertyId :: "string \<Rightarrow> unit M" where
  "verifyPropertyId ident =
     (if length ident = 4 \<and> list_all ishex ident then return ()
      else raise InvalidPropertyIdError)"

text \<open>Modelled from the spec: \<open>utils.verifyType\<close> is not among the sources; a type, when
  given, is one of the type codes of the two tables of \<open>constants\<close>.\<close>

definition verifyType :: "deps \<Rightarrow> string option \<Rightarrow> unit M" where
  "verifyType E ty =
     (case ty of
        None \<Rightarrow> return ()
      | Some t \<Rightarrow>
          if t \<in> set (VARIABLE_LENGTH_PROPS_STRING E) \<or> t \<in> set (FIXED_LENGTH_PROPS_STRING E)
          then return ()
          else raise UnknownTypeError)"

text \<open>Modelled from the spec: \<open>utils.divide\<close> is not among the sources; one fixed-width
  record per element, packed contiguously.\<close>

function divide :: "'a list \<Rightarrow> nat \<Rightarrow> 'a list list" where
  "divide xs n = (if xs = [] \<or> n = 0 then [] else take n xs # divide (drop n xs) n)"
  by pat_completeness auto
termination
  by (relation "measure (\<lambda>(xs, n). length xs)") auto

definition element_width :: "deps \<Rightarrow> string \<Rightarrow> nat" where
  "element_width E ty =
     (if ty \<in> set (MULTIPLE_2_BYTES E) then 2
      else if ty \<in> set (MULTIPLE_4_BYTES E) then 4
      else if ty \<in> set (MULTIPLE_8_BYTES E) then 8
      else 16)"

definition packed_types :: "string list" where
  "packed_types = [''1002'', ''1003'', ''1004'', ''1005'', ''1007'', ''1014'', ''1040'', ''1048'']"

definition indexed_types :: "string list" where
  "indexed_types = [''101F'', ''101E'', ''1102'']"

text \<open>\<open>self.props[x[-8:]].realLength\<close> inside \<open>try\<close>; every exception is caught, the
  error logged and the count taken from the stream length. What the failed attempt did to
  the state stays.\<close>

definition realLength_or_guess :: "deps \<Rightarrow> MSGFile \<Rightarrow> string \<Rightarrow> bytes \<Rightarrow> string \<Rightarrow> nat M" where
  "realLength_or_guess E m x contents ty s =
     (let guess = bind (logger ERROR (NoMatchingVariableLengthProp x))
                       (\<lambda>_. return (length contents div element_width E ty))
      in case props E m s of
           (Inl e, s1) \<Rightarrow> guess s1
         | (Inr p, s1) \<Rightarrow>
             (case map_of p (lastn 8 x) of
                Some (VariableLengthProp len realLength) \<Rightarrow> (Inr realLength, s1)
              | _ \<Rightarrow> guess s1))"

text \<open>The loop \<open>for y in range(streams)\<close> that collects the indexed sibling streams.\<close>

fun collect_extras :: "MSGFile \<Rightarrow> string \<Rightarrow> nat list \<Rightarrow> pyval list \<Rightarrow> pyval list M" where
  "collect_extras m x [] extras = return extras"
| "collect_extras m x (y # ys) extras =
     (let name = x @ ''-'' @ fmt08X y
      in if exists m (PathStr name) False
         then bind (getStream m (PathStr name) False)
                   (\<lambda>b. collect_extras m x ys (extras @ [pyopt b]))
         else collect_extras m x ys extras)"

text \<open>The body of the loop of \<open>_getTypedStream\<close> once the contents of stream \<open>x\<close> are
  at hand.\<close>

definition typed_contents :: "deps \<Rightarrow> MSGFile \<Rightarrow> string \<Rightarrow> bytes \<Rightarrow> (bool \<times> pyval) M" where
  "typed_contents E m x contents =
     (if length contents = 0 then return (True, PNone)
      else if length x < 4 then raise IndexError
      else
        (let ty = lastn 4 x
         in bind
              (if hd ty = CHR ''1''
               then
                 bind (if ty \<in> set [''101F'', ''101E''] then return (length contents div 4)
                       else if ty = ''1102'' then return (length contents div 8)
                       else if ty \<in> set packed_types then realLength_or_guess E m x contents ty
                       else raise NotImplementedError) (\<lambda>streams.
                   if ty \<in> set indexed_types
                   then
                     (if exists m (PathStr (x @ ''-00000000'')) False
                      then bind (collect_extras m x [0 ..< streams] [])
                                (\<lambda>extras. return (extras, PBytes contents))
                      else return ([], PBytes contents))
                   else if ty \<in> set packed_types
                   then return (map PBytes (divide contents (element_width E ty)), PInt (int streams))
                   else return ([], PBytes contents))
               else return ([], PBytes contents))
              (\<lambda>(extras, contents').
                 bind (lift (int16 E ty)) (\<lambda>t.
                   bind (stringEncoding E m) (\<lambda>enc.
                     bind (lift (parseType E t contents' enc extras)) (\<lambda>r. return (True, r)))))))"

fun typed_stream_loop :: "deps \<Rightarrow> MSGFile \<Rightarrow> string \<Rightarrow> string list \<Rightarrow> (bool \<times> pyval) M" where
  "typed_stream_loop E m filename [] = return (False, PNone)"
| "typed_stream_loop E m filename (x # xs) =
     (if startswith x filename \<and> CHR ''-'' \<notin> set x
      then bind (getStream m (PathStr x) False) (\<lambda>contents.
             case contents of
               None \<Rightarrow> typed_stream_loop E m filename xs
             | Some c \<Rightarrow> typed_contents E m x c)
      else typed_stream_loop E m filename xs)"

text \<open>The methods \<open>_getTypedStream\<close>, \<open>_getTypedProperty\<close> and \<open>_getTypedData\<close>
  (written without the leading underscore).\<close>

definition getTypedStream ::
  "deps \<Rightarrow> MSGFile \<Rightarrow> MSG_PATH \<Rightarrow> bool \<Rightarrow> string option \<Rightarrow> (bool \<times> pyval) M" where
  "getTypedStream E m filename pre ty =
     bind (verifyType E ty) (\<lambda>_.
       (let filename' = fixPath m filename pre
        in bind (case ty of
                   Some t \<Rightarrow> return [filename' @ t]
                 | None \<Rightarrow> slistDir m True False True)
                (typed_stream_loop E m filename')))"

text \<open>The default handed to \<open>getPropertyVal\<close> is a fresh \<open>object()\<close>; it comes back
  exactly when the store has no inline value under the tag.\<close>

definition getTypedProperty :: "deps \<Rightarrow> MSGFile \<Rightarrow> string \<Rightarrow> string option \<Rightarrow> (bool \<times> pyval) M" where
  "getTypedProperty E m propertyID ty =
     bind (verifyPropertyId propertyID) (\<lambda>_.
       bind (case ty of
               None \<Rightarrow> return propertyID
             | Some t \<Rightarrow> if t = [] then return propertyID
                         else bind (verifyType E ty) (\<lambda>_. return (propertyID @ t)))
            (\<lambda>tag.
               bind (props E m) (\<lambda>p.
                 return (case getValue p tag of None \<Rightarrow> (False, PNone) | Some v \<Rightarrow> (True, v)))))"

definition getTypedData :: "deps \<Rightarrow> MSGFile \<Rightarrow> string \<Rightarrow> string option \<Rightarrow> bool \<Rightarrow> pyval M" where
  "getTypedData E m ident ty pre =
     bind (verifyPropertyId ident) (\<lambda>_.
       (let ident' = upper ident
        in bind (getTypedStream E m (PathStr (''__substg1.0_'' @ ident')) pre ty) (\<lambda>(found, result).
             if found then return result
             else bind (getTypedProperty E m ident' ty) (\<lambda>(found', result').
                    return (if found' then result' else PNone)))))"

section \<open>Weak back-references: recipients and the named-property table\<close>

















section \<open>Example containers\<close>

text \<open>An example container that holds streams only, given in listing order; a name exists
  when it is written exactly like the name of one of the streams.\<close>

definition ole_of :: "(string \<times> bytes) list \<Rightarrow> OleFileIO" where
  "ole_of streams =
     \<lparr>ole_exists = (\<lambda>p. map_of streams p \<noteq> None),
      ole_openstream = (\<lambda>p. case map_of streams p of None \<Rightarrow> Inl IOError | Some b \<Rightarrow> Inr b),
      ole_listdir = (\<lambda>want_streams want_storages.
         if want_streams then map (\<lambda>kv. split (CHR ''/'') (fst kv)) streams else [])\<rparr>"

definition msg_of :: "string list \<Rightarrow> ErrorBehavior list \<Rightarrow> (string \<times> bytes) list \<Rightarrow> MSGFile" where
  "msg_of prefixl behavior streams =
     \<lparr>ole = ole_of streams,
      prefix = (if prefixl = [] then [] else join ''/'' prefixl @ ''/''),
      prefixList = prefixl,
      prefixLen = length prefixl,
      errorBehavior = behavior,
      overrideEncoding = None\<rparr>"

text \<open>Stand-ins for the absent collaborators in the examples: a codec that maps bytes to
  characters one to one, a typed parser that returns the contents as they are, a property
  stream whose slots are already records.\<close>

definition demo_deps :: "PropertiesStore \<Rightarrow> deps" where
  "demo_deps store =
     \<lparr>decode = (\<lambda>enc b. Inr (map (\<lambda>w. char_of (unat w)) b)),
      parseType = (\<lambda>t contents enc extras. Inr contents),
      parseProperties = (\<lambda>b t. store),
      codePages = [(1252, ''windows-1252'')],
      FIXED_LENGTH_PROPS_STRING = [''0003'', ''000B''],
      VARIABLE_LENGTH_PROPS_STRING = [''001E'', ''001F'', ''0102'', ''101E'', ''101F'', ''1102''],
      MULTIPLE_2_BYTES = [''1002''],
      MULTIPLE_4_BYTES = [''1003'', ''1004''],
      MULTIPLE_8_BYTES = [''1005'', ''1007'', ''1014'', ''1040''],
      int16 = (\<lambda>t. Inr 0)\<rparr>"

section \<open>Example data and further definitions\<close>

definition b5 :: bytes where
  "b5 = [1, 2, 3, 4, 5]"

definition b3 :: bytes where
  "b3 = [6, 7, 8]"

definition rec16 :: bytes where
  "rec16 = [5, 0, 0, 0, 0, 0, 0, 0, 3, 0, 0, 0, 0, 0, 0, 0]"

definition demo_binary :: MSGFile where
  "demo_binary = msg_of [] []
     [(''__substg1.0_00011102'', rec16),
      (''__substg1.0_00011102-00000000'', b5),
      (''__substg1.0_00011102-00000001'', b3)]"

definition demo_binary_missing :: MSGFile where
  "demo_binary_missing = msg_of [] []
     [(''__substg1.0_00011102'', rec16),
      (''__substg1.0_00011102-00000000'', b5)]"

definition demo_embedded :: MSGFile where
  "demo_embedded = msg_of [''__attach_1'', ''__substg1.0_3701000D''] []
     [(''__attach_1/__substg1.0_3701000D/__substg1.0_00011102'', rec16),
      (''__attach_1/__substg1.0_3701000D/__substg1.0_00011102-00000000'', b5),
      (''__attach_1/__substg1.0_3701000D/__substg1.0_00011102-00000001'', b3)]"

definition unicode_store :: PropertiesStore where
  "unicode_store = [(''340D0003'', FixedLengthProp (PInt 0x40000))]"

definition legacy_store :: PropertiesStore where
  "legacy_store = [(''340D0003'', FixedLengthProp (PInt 0))]"

definition b6 :: bytes where
  "b6 = [1, 2, 3, 4, 5, 6]"

definition demo_legacy6 :: MSGFile where
  "demo_legacy6 = msg_of [] []
     [(''__properties_version1.0'', [0]),
      (''__substg1.0_0001101E'', b6)]"

definition demo_both :: MSGFile where
  "demo_both = msg_of [] []
     [(''__substg1.0_00010102'', b6),
      (''__substg1.0_00011102'', rec16),
      (''__substg1.0_00011102-00000000'', b5),
      (''__substg1.0_00011102-00000001'', b3)]"






definition demo_no_props :: "ErrorBehavior list \<Rightarrow> MSGFile" where
  "demo_no_props behavior = msg_of [] behavior [(''__substg1.0_0037001F'', b6)]"

definition demo_override :: MSGFile where
  "demo_override =
     (msg_of [] [] [(''__properties_version1.0'', [0])])\<lparr>overrideEncoding := Some ''cp1252''\<rparr>"

definition demo_plain :: MSGFile where
  "demo_plain = msg_of [] [] [(''__properties_version1.0'', [0])]"

definition demo_embedded_unicode :: MSGFile where
  "demo_embedded_unicode = msg_of [''__attach_1'', ''__substg1.0_3701000D''] []
     [(''__attach_1/__substg1.0_3701000D/__properties_version1.0'', [0]),
      (''__attach_1/__substg1.0_3701000D/__substg1.0_3001001F'', b6),
      (''__attach_1/__substg1.0_3701000D/__substg1.0_0001101F'', [4, 0, 0, 0]),
      (''__attach_1/__substg1.0_3701000D/__substg1.0_0001101F-00000000'', b3)]"

text \<open>Two containers agree below a prefix when every path that starts with the prefix
  exists in both or in neither and reads the same, and the listings have the same entries
  below the prefix.\<close>

definition agree_below :: "string \<Rightarrow> string list \<Rightarrow> OleFileIO \<Rightarrow> OleFileIO \<Rightarrow> bool" where
  "agree_below P pl c1 c2 =
     ((\<forall>x. ole_exists c1 (P @ x) = ole_exists c2 (P @ x))
      \<and> (\<forall>x. ole_openstream c1 (P @ x) = ole_openstream c2 (P @ x))
      \<and> (\<forall>a b. filter (\<lambda>x. length x > length pl \<and> take (length pl) x = pl) (ole_listdir c1 a b)
               = filter (\<lambda>x. length x > length pl \<and> take (length pl) x = pl) (ole_listdir c2 a b)))"

text \<open>A message whose subject has a stream and, for the same identifier, an inline record
  of another type in the property store.\<close>

definition typed_store :: PropertiesStore where
  "typed_store =
     [(''340D0003'', FixedLengthProp (PInt 0x40000)),
      (''00370003'', FixedLengthProp (PInt 7))]"

definition demo_typed :: MSGFile where
  "demo_typed = msg_of [] []
     [(''__properties_version1.0'', [0]),
      (''__substg1.0_0037001F'', b6)]"

section \<open>Basic facts\<close>

lemma and7: "(n::nat) AND 7 = n mod 8"
  using take_bit_eq_mask[of 3 n] take_bit_eq_mod[of 3 n] by (simp add: mask_eq_exp_minus_1)

lemma and3: "(n::nat) AND 3 = n mod 4"
  using take_bit_eq_mask[of 2 n] take_bit_eq_mod[of 2 n] by (simp add: mask_eq_exp_minus_1)

lemma getStream_present:
  "ole_exists (ole m) (fixPath m f pre) \<Longrightarrow> ole_openstream (ole m) (fixPath m f pre) = Inr b
   \<Longrightarrow> getStream m f pre s = (Inr (Some b), s)"
  by (simp add: getStream_def exists_def fixPath_def return_def)

lemma getStream_absent:
  "\<not> ole_exists (ole m) (fixPath m f pre)
   \<Longrightarrow> getStream m f pre s
       = (Inr None, s\<lparr>logged := logged s @ [(INFO, StreamNotFound (fixPath m f pre))]\<rparr>)"
  by (simp add: getStream_def exists_def fixPath_def return_def bind_def logger_def)

lemma mapM_pure:
  "(\<And>x. x \<in> set xs \<Longrightarrow> f x s = (Inr (g x), s)) \<Longrightarrow> mapM f xs s = (Inr (map g xs), s)"
  by (induction xs) (simp_all add: return_def bind_def)

lemma replicate7: "replicate 7 c = [c, c, c, c, c, c, c]"
  by (simp add: numeral_eq_Suc)

lemma hexU_small: "n < 16 \<Longrightarrow> hexU n = [hexdigit n]"
  by simp

lemma fmt08X_0: "fmt08X 0 = ''00000000''"
  by (simp add: fmt08X_def hexU_small hexdigit_def replicate7 del: hexU.simps)

lemma fmt08X_1: "fmt08X (Suc 0) = ''00000001''"
  by (simp add: fmt08X_def hexU_small hexdigit_def replicate7 del: hexU.simps)

lemma next_None_Some: "next_None (map Some bs) = Inr (- 1)"
  by (simp add: next_None_def)

lemma fixPath_str: "fixPath m (PathStr p) True = prefix m @ p"
  by (simp add: fixPath_def)

lemma map_Some_nth: "map (\<lambda>i. Some (bs ! i)) [0 ..< length bs] = map Some bs"
proof -
  have "map (\<lambda>i. Some (bs ! i)) [0 ..< length bs] = map Some (map (nth bs) [0 ..< length bs])"
    by simp
  then show ?thesis by (simp only: map_nth)
qed

lemma upt_0_2: "[0 ..< 2] = [0, Suc 0]"
  by (simp add: upt_conv_Cons)

lemma all_less_2: "(\<forall>i<Suc (Suc 0). P i) = (P 0 \<and> P (Suc 0))"
  by (auto simp: less_Suc_eq)

section \<open>Multi-valued binary sets: all siblings present\<close>

text \<open>
  The decoding of a complete set, for the stream that \<open>getMultipleBinary\<close> reads: the
  name it builds (\<open>fixPath(filename, prefix) + '1102'\<close>) resolved again by \<open>getStream\<close>.
  When that stream holds \<open>N\<close> eight-byte records and each of the indexed siblings is present
  with bytes \<open>bs ! i\<close>, the result is the list of exactly these \<open>N\<close> byte strings in index
  order, and nothing is logged.
\<close>

lemma getMultipleBinary_all_present:
  assumes base: "base = fixPath m (PathStr (fixPath m filename pre @ ''1102'')) True"
    and ex: "ole_exists (ole m) base"
    and rd: "ole_openstream (ole m) base = Inr ms"
    and len: "length ms = 8 * length bs"
    and sib: "\<forall>i < length bs. ole_exists (ole m) (base @ ''-'' @ fmt08X i)
                \<and> ole_openstream (ole m) (base @ ''-'' @ fmt08X i) = Inr (bs ! i)"
  shows "getMultipleBinary m filename pre s = (Inr (Some (map Some bs)), s)"
proof -
  let ?fn = "fixPath m filename pre @ ''1102''"
  have g0: "getStream m (PathStr ?fn) True s = (Inr (Some ms), s)"
    using ex rd base by (intro getStream_present) simp_all
  show ?thesis
  proof (cases "bs = []")
    case True
    with len have "ms = []" by simp
    with True g0 show ?thesis
      by (simp add: getMultipleBinary_def Let_def bind_def return_def)
  next
    case False
    with len have nz: "ms \<noteq> []" by auto
    from len have a7: "length ms AND 7 = 0" by (simp add: and7)
    from len have dv: "length ms div 8 = length bs" by simp
    have sibs: "mapM (\<lambda>x. getStream m (PathStr (?fn @ ''-'' @ fmt08X x)) True) [0 ..< length bs] s
                = (Inr (map (\<lambda>i. Some (bs ! i)) [0 ..< length bs]), s)"
    proof (rule mapM_pure)
      fix x assume "x \<in> set [0 ..< length bs]"
      then have "x < length bs" by simp
      with sib base
      show "getStream m (PathStr (?fn @ ''-'' @ fmt08X x)) True s = (Inr (Some (bs ! x)), s)"
        by (intro getStream_present) (simp_all add: fixPath_str)
    qed
    have "getMultipleBinary m filename pre s
          = (case next_None (map Some bs) of
               Inr index \<Rightarrow>
                 if index \<noteq> - 1
                 then bind (logger ERROR MultipleBinaryIncomplete)
                           (\<lambda>_. return (Some (slice_to (map Some bs) index)))
                 else return (Some (map Some bs))
             | Inl None \<Rightarrow>
                 bind (logger ERROR MultipleBinaryIncomplete) (\<lambda>_. return (Some (map Some bs)))
             | Inl (Some _) \<Rightarrow>
                 bind (logger ERROR MultipleBinaryIncomplete) (\<lambda>_. raise TypeError)) s"
      unfolding getMultipleBinary_def Let_def bind_def g0
      using nz a7 sibs by (simp add: dv map_Some_nth)
    then show ?thesis
      by (simp add: next_None_Some return_def)
  qed
qed

lemma getMultipleBinary_top_level_example:
  "getMultipleBinary demo_binary (PathStr ''__substg1.0_0001'') True (init_lazy demo_binary)
     = (Inr (Some [Some b5, Some b3]), init_lazy demo_binary)"
  using getMultipleBinary_all_present
    [of "''__substg1.0_00011102''" demo_binary "PathStr ''__substg1.0_0001''" True rec16 "[b5, b3]"
        "init_lazy demo_binary"]
  by (simp add: demo_binary_def msg_of_def ole_of_def fixPath_def rec16_def all_less_2
      fmt08X_0 fmt08X_1)

section \<open>Multi-valued binary sets: a sibling is missing\<close>

text \<open>
  Claim C4. Two records are declared and the sibling \<open>-00000001\<close> is absent. No exception
  is raised and the notice is logged, but the list returned still has two entries, the second
  being \<open>None\<close>: \<open>next\<close> yields the missing element itself, so the slice bound is \<open>None\<close>
  and \<open>ret[:None]\<close> is the whole list. The claim asks for the one-element prefix.
\<close>

theorem getMultipleBinary_missing_sibling:
  "getMultipleBinary demo_binary_missing (PathStr ''__substg1.0_0001'') True
       (init_lazy demo_binary_missing)
     = (Inr (Some [Some b5, None]),
        (init_lazy demo_binary_missing)\<lparr>logged :=
           [(INFO, StreamNotFound ''__substg1.0_00011102-00000001''),
            (ERROR, MultipleBinaryIncomplete)]\<rparr>)"
  by (simp add: getMultipleBinary_def Let_def getStream_def exists_def fixPath_def
      demo_binary_missing_def msg_of_def ole_of_def rec16_def bind_def return_def logger_def
      init_lazy_def next_None_def fmt08X_0 fmt08X_1 upt_0_2 and7)

section \<open>Multi-valued binary sets of an embedded message\<close>

text \<open>
  Claim C3. An embedded message at the prefix \<open>__attach_1/__substg1.0_3701000D/\<close> whose
  own scope holds the container stream with two records and both indexed siblings. The
  claim asks for the two byte strings. \<open>getMultipleBinary\<close> puts the prefix in front of the
  name and hands the result to \<open>getStream\<close>, which puts the prefix in front once more; the
  stream asked for does not exist and the result is \<open>None\<close>.
\<close>

theorem getMultipleBinary_embedded:
  "getMultipleBinary demo_embedded (PathStr ''__substg1.0_0001'') True (init_lazy demo_embedded)
     = (Inr None,
        (init_lazy demo_embedded)\<lparr>logged :=
           [(INFO, StreamNotFound
              ''__attach_1/__substg1.0_3701000D/__attach_1/__substg1.0_3701000D/__substg1.0_00011102'')]\<rparr>)"
  by (simp add: getMultipleBinary_def Let_def getStream_def exists_def fixPath_def
      demo_embedded_def msg_of_def ole_of_def bind_def return_def logger_def init_lazy_def)

section \<open>Multi-valued string sets of a message with legacy strings\<close>

lemma areStringsUnicode_legacy6:
  "areStringsUnicode (demo_deps legacy_store) demo_legacy6 (init_lazy demo_legacy6)
     = (Inr False, (init_lazy demo_legacy6)\<lparr>props_cell := Some legacy_store,
                                              areStringsUnicode_cell := Some False\<rparr>)"
  by (simp add: areStringsUnicode_def getPropertyVal_def props_def getStream_def exists_def
      fixPath_def init_lazy_def bind_def return_def PropertiesStore_def demo_deps_def
      legacy_store_def getValue_def getProperties_def startswith_def demo_legacy6_def
      msg_of_def ole_of_def Let_def)

text \<open>
  Claim C5. A top-level message whose strings are not Unicode and whose multi-valued string
  property \<open>0001\<close> has a container stream of six bytes. The claim asks for
  \<open>StandardViolationError\<close>; \<open>getMultipleString\<close> asks for the stream \<open>101E\<close>
  instead of \<open>__substg1.0_0001101E\<close>, finds nothing and returns the empty list.
\<close>

theorem getMultipleString_legacy_length6:
  "getMultipleString (demo_deps legacy_store) demo_legacy6 (PathStr ''__substg1.0_0001'') True
       (init_lazy demo_legacy6)
     = (Inr [],
        (init_lazy demo_legacy6)\<lparr>props_cell := Some legacy_store,
                                   areStringsUnicode_cell := Some False,
                                   logged := [(INFO, StreamNotFound ''101E'')]\<rparr>)"
  unfolding getMultipleString_def Let_def bind_def areStringsUnicode_legacy6
  by (simp add: getStream_def exists_def fixPath_def demo_legacy6_def msg_of_def ole_of_def
      bind_def return_def logger_def init_lazy_def)

text \<open>
  Claim C10. When the strings are not Unicode, \<open>getMultipleString\<close> asks for the stream
  named \<open>101E\<close> under the prefix, whatever name was requested: any two requests give the
  same outcome, and when no stream \<open>101E\<close> exists the outcome is the empty list. An absent
  container stream gives the empty list in \<open>getMultipleString\<close> (also for Unicode strings)
  and \<open>None\<close> in \<open>getMultipleBinary\<close>.
\<close>

theorem getMultipleString_not_unicode:
  "(areStringsUnicode E m s = (Inr False, s1) \<longrightarrow>
      getMultipleString E m filename pre s = getMultipleString E m filename' pre' s
      \<and> getMultipleString E m filename pre s
          = bind (getStream m (PathStr ''101E'') True)
              (\<lambda>multStream. case multStream of
                  None \<Rightarrow> return []
                | Some ms \<Rightarrow>
                    if length ms = 0 then return []
                    else if length ms AND 3 \<noteq> 0 then raise StandardViolationError
                    else bind (mapM (\<lambda>x. getStream m (PathStr (''101E'' @ ''-'' @ fmt08X x)) True)
                                    [0 ..< length ms div 4])
                              (\<lambda>ret. decode_entries E m ret [])) s1
      \<and> (\<not> ole_exists (ole m) (prefix m @ ''101E'') \<longrightarrow>
           getMultipleString E m filename pre s
             = (Inr [], s1\<lparr>logged := logged s1 @ [(INFO, StreamNotFound (prefix m @ ''101E''))]\<rparr>)))
   \<and> (areStringsUnicode E m s = (Inr True, s1)
        \<and> \<not> ole_exists (ole m) (prefix m @ fixPath m filename pre @ ''101F'') \<longrightarrow>
      getMultipleString E m filename pre s
        = (Inr [], s1\<lparr>logged := logged s1 @
             [(INFO, StreamNotFound (prefix m @ fixPath m filename pre @ ''101F''))]\<rparr>))
   \<and> (\<not> ole_exists (ole m) (prefix m @ fixPath m filename pre @ ''1102'') \<longrightarrow>
      getMultipleBinary m filename pre s
        = (Inr None, s\<lparr>logged := logged s @
             [(INFO, StreamNotFound (prefix m @ fixPath m filename pre @ ''1102''))]\<rparr>))"
proof (intro conjI impI)
  assume u: "areStringsUnicode E m s = (Inr False, s1)"
  show "getMultipleString E m filename pre s = getMultipleString E m filename' pre' s"
    unfolding getMultipleString_def Let_def bind_def u by simp
  show "getMultipleString E m filename pre s
          = bind (getStream m (PathStr ''101E'') True)
              (\<lambda>multStream. case multStream of
                  None \<Rightarrow> return []
                | Some ms \<Rightarrow>
                    if length ms = 0 then return []
                    else if length ms AND 3 \<noteq> 0 then raise StandardViolationError
                    else bind (mapM (\<lambda>x. getStream m (PathStr (''101E'' @ ''-'' @ fmt08X x)) True)
                                    [0 ..< length ms div 4])
                              (\<lambda>ret. decode_entries E m ret [])) s1"
    unfolding getMultipleString_def Let_def bind_def u by simp
  assume n: "\<not> ole_exists (ole m) (prefix m @ ''101E'')"
  then have g: "getStream m (PathStr ''101E'') True s1
      = (Inr None, s1\<lparr>logged := logged s1 @ [(INFO, StreamNotFound (prefix m @ ''101E''))]\<rparr>)"
    using getStream_absent[of m "PathStr ''101E''" True s1] by (simp add: fixPath_str)
  show "getMultipleString E m filename pre s
      = (Inr [], s1\<lparr>logged := logged s1 @ [(INFO, StreamNotFound (prefix m @ ''101E''))]\<rparr>)"
    unfolding getMultipleString_def Let_def bind_def u by (simp add: g return_def)
next
  assume a: "areStringsUnicode E m s = (Inr True, s1)
        \<and> \<not> ole_exists (ole m) (prefix m @ fixPath m filename pre @ ''101F'')"
  then have u: "areStringsUnicode E m s = (Inr True, s1)" by simp
  from a have g: "getStream m (PathStr (fixPath m filename pre @ ''101F'')) True s1
      = (Inr None, s1\<lparr>logged := logged s1 @
             [(INFO, StreamNotFound (prefix m @ fixPath m filename pre @ ''101F''))]\<rparr>)"
    using getStream_absent[of m "PathStr (fixPath m filename pre @ ''101F'')" True s1]
    by (simp add: fixPath_str)
  show "getMultipleString E m filename pre s
        = (Inr [], s1\<lparr>logged := logged s1 @
             [(INFO, StreamNotFound (prefix m @ fixPath m filename pre @ ''101F''))]\<rparr>)"
    unfolding getMultipleString_def Let_def bind_def u by (simp add: g return_def)
next
  assume n: "\<not> ole_exists (ole m) (prefix m @ fixPath m filename pre @ ''1102'')"
  then have g: "getStream m (PathStr (fixPath m filename pre @ ''1102'')) True s
      = (Inr None, s\<lparr>logged := logged s @
             [(INFO, StreamNotFound (prefix m @ fixPath m filename pre @ ''1102''))]\<rparr>)"
    using getStream_absent[of m "PathStr (fixPath m filename pre @ ''1102'')" True s]
    by (simp add: fixPath_str)
  show "getMultipleBinary m filename pre s
        = (Inr None, s\<lparr>logged := logged s @
             [(INFO, StreamNotFound (prefix m @ fixPath m filename pre @ ''1102''))]\<rparr>)"
    unfolding getMultipleBinary_def Let_def bind_def by (simp add: g return_def)
qed

theorem getMultipleString_not_unicode_witness:
  "getMultipleString (demo_deps legacy_store) demo_legacy6 (PathStr ''__substg1.0_0002'') False
       (init_lazy demo_legacy6)
     = (Inr [],
        (init_lazy demo_legacy6)\<lparr>props_cell := Some legacy_store,
                                   areStringsUnicode_cell := Some False,
                                   logged := [(INFO, StreamNotFound ''101E'')]\<rparr>)
   \<and> getMultipleBinary demo_legacy6 (PathStr ''__substg1.0_0002'') False (init_lazy demo_legacy6)
     = (Inr None,
        (init_lazy demo_legacy6)\<lparr>logged := [(INFO, StreamNotFound ''__substg1.0_00021102'')]\<rparr>)"
proof -
  let ?s1 = "(init_lazy demo_legacy6)\<lparr>props_cell := Some legacy_store,
                                       areStringsUnicode_cell := Some False\<rparr>"
  have p: "prefix demo_legacy6 = []"
    by (simp add: demo_legacy6_def msg_of_def)
  have ne: "\<not> ole_exists (ole demo_legacy6) (prefix demo_legacy6 @ ''101E'')"
    by (simp add: demo_legacy6_def msg_of_def ole_of_def)
  have nb: "\<not> ole_exists (ole demo_legacy6)
              (prefix demo_legacy6 @ fixPath demo_legacy6 (PathStr ''__substg1.0_0002'') False @ ''1102'')"
    by (simp add: demo_legacy6_def msg_of_def ole_of_def fixPath_def)
  have a: "getMultipleString (demo_deps legacy_store) demo_legacy6 (PathStr ''__substg1.0_0002'') False
             (init_lazy demo_legacy6)
           = (Inr [], ?s1\<lparr>logged := logged ?s1 @
                [(INFO, StreamNotFound (prefix demo_legacy6 @ ''101E''))]\<rparr>)"
    using getMultipleString_not_unicode
      [of "demo_deps legacy_store" demo_legacy6 "init_lazy demo_legacy6" ?s1
          "PathStr ''__substg1.0_0002''" False "PathStr ''__substg1.0_0002''" False]
      areStringsUnicode_legacy6 ne
    by blast
  have b: "getMultipleBinary demo_legacy6 (PathStr ''__substg1.0_0002'') False (init_lazy demo_legacy6)
           = (Inr None, (init_lazy demo_legacy6)\<lparr>logged := logged (init_lazy demo_legacy6) @
                [(INFO, StreamNotFound (prefix demo_legacy6
                    @ fixPath demo_legacy6 (PathStr ''__substg1.0_0002'') False @ ''1102''))]\<rparr>)"
    using getMultipleString_not_unicode
      [of "demo_deps legacy_store" demo_legacy6 "init_lazy demo_legacy6" ?s1
          "PathStr ''__substg1.0_0002''" False "PathStr ''__substg1.0_0002''" False]
      nb
    by blast
  show ?thesis
    unfolding a b by (simp add: p fixPath_def init_lazy_def)
qed

section \<open>Single-or-multiple accessors\<close>

lemma getSingleOrMultipleString_cases:
  "getStringStream E m (PathStr (fixPath m filename pre)) False s = (r, s1) \<Longrightarrow>
   getSingleOrMultipleString E m filename pre s =
     (case r of
        Inl e \<Rightarrow> (Inl e, s1)
      | Inr (Some t) \<Rightarrow> (Inr (PStr t), s1)
      | Inr None \<Rightarrow>
          bind (getMultipleString E m (PathStr (fixPath m filename pre)) False)
               (\<lambda>r. return (PList (map PStr r))) s1)"
  by (simp add: getSingleOrMultipleString_def Let_def bind_def return_def
      split: sum.splits option.splits)

lemma getStringStream_unicode_present:
  assumes "areStringsUnicode E m s = (Inr True, s1)"
    and "ole_exists (ole m) (fixPath m filename pre @ ''001F'')"
    and "ole_openstream (ole m) (fixPath m filename pre @ ''001F'') = Inr b"
  shows "getStringStream E m filename pre s =
           (case decode E ''utf-16-le'' b of
              Inl e \<Rightarrow> (Inl e, s1)
            | Inr t \<Rightarrow> (Inr (Some t), s1))"
proof -
  have g: "getStream m (PathStr (fixPath m filename pre @ ''001F'')) False s1 = (Inr (Some b), s1)"
    using assms(2,3) by (intro getStream_present) (simp_all add: fixPath_def)
  show ?thesis
    unfolding getStringStream_def Let_def bind_def assms(1)
    by (simp add: g windowsUnicode_def lift_def bind_def return_def raise_def split: sum.splits)
qed

lemma getStringStream_legacy_present:
  assumes "areStringsUnicode E m s = (Inr False, s1)"
    and "ole_exists (ole m) (fixPath m filename pre @ ''001E'')"
    and "ole_openstream (ole m) (fixPath m filename pre @ ''001E'') = Inr b"
    and "stringEncoding E m s1 = (re, s2)"
  shows "getStringStream E m filename pre s =
           (case re of
              Inl e \<Rightarrow> (Inl e, s2)
            | Inr enc \<Rightarrow>
                (case decode E enc b of
                   Inl e \<Rightarrow> (Inl e, s2)
                 | Inr t \<Rightarrow> (Inr (Some t), s2)))"
proof -
  have g: "getStream m (PathStr (fixPath m filename pre @ ''001E'')) False s1 = (Inr (Some b), s1)"
    using assms(2,3) by (intro getStream_present) (simp_all add: fixPath_def)
  show ?thesis
    unfolding getStringStream_def Let_def bind_def assms(1)
    by (simp add: g assms(4) lift_def bind_def return_def raise_def split: sum.splits)
qed

lemma fixPath_fixed: "fixPath m (PathStr (fixPath m filename pre)) False = fixPath m filename pre"
  by (simp add: fixPath_def)

lemma getStringStream_fixed:
  "getStringStream E m (PathStr (fixPath m filename pre)) False = getStringStream E m filename pre"
  by (simp add: getStringStream_def fixPath_fixed)

text \<open>
  Claim C7. When the single-valued stream of the id exists, the single-or-multiple accessors
  give the outcome of the single-valued read, whatever multi-valued set the container holds:
  the bytes of the \<open>0102\<close> stream for binaries; for strings the decoded \<open>001F\<close> stream when
  the strings are Unicode and the decoded \<open>001E\<close> stream otherwise (a failure of the
  decoding is passed on, the multi-valued set is not tried). Only when the single-valued
  stream is absent is the outcome that of \<open>getMultipleBinary\<close> or \<open>getMultipleString\<close>.
  In every case \<open>getSingleOrMultipleString\<close> gives what \<open>getStringStream\<close> gives for the
  same name, a failure included, unless that is \<open>None\<close>.
\<close>

theorem single_valued_wins:
  "(ole_exists (ole m) (fixPath m filename pre @ ''0102'')
      \<and> ole_openstream (ole m) (fixPath m filename pre @ ''0102'') = Inr b
    \<longrightarrow> getSingleOrMultipleBinary m filename pre s = (Inr (PBytes b), s))
   \<and> (\<not> ole_exists (ole m) (fixPath m filename pre @ ''0102'')
    \<longrightarrow> getSingleOrMultipleBinary m filename pre s =
          bind (getMultipleBinary m (PathStr (fixPath m filename pre)) False)
               (\<lambda>r. return (case r of None \<Rightarrow> PNone | Some xs \<Rightarrow> PList (map pyopt xs)))
               (s\<lparr>logged := logged s @
                    [(INFO, StreamNotFound (fixPath m filename pre @ ''0102''))]\<rparr>))
   \<and> (areStringsUnicode E m s = (Inr True, s1)
      \<and> ole_exists (ole m) (fixPath m filename pre @ ''001F'')
      \<and> ole_openstream (ole m) (fixPath m filename pre @ ''001F'') = Inr b
    \<longrightarrow> getSingleOrMultipleString E m filename pre s =
          (case decode E ''utf-16-le'' b of
             Inl e \<Rightarrow> (Inl e, s1)
           | Inr t \<Rightarrow> (Inr (PStr t), s1)))
   \<and> (areStringsUnicode E m s = (Inr False, s1)
      \<and> ole_exists (ole m) (fixPath m filename pre @ ''001E'')
      \<and> ole_openstream (ole m) (fixPath m filename pre @ ''001E'') = Inr b
      \<and> stringEncoding E m s1 = (re, s2)
    \<longrightarrow> getSingleOrMultipleString E m filename pre s =
          (case re of
             Inl e \<Rightarrow> (Inl e, s2)
           | Inr enc \<Rightarrow>
               (case decode E enc b of
                  Inl e \<Rightarrow> (Inl e, s2)
                | Inr t \<Rightarrow> (Inr (PStr t), s2))))
   \<and> (getStringStream E m filename pre s = (Inr None, s1)
    \<longrightarrow> getSingleOrMultipleString E m filename pre s =
          bind (getMultipleString E m (PathStr (fixPath m filename pre)) False)
               (\<lambda>r. return (PList (map PStr r))) s1)
   \<and> (getStringStream E m filename pre s = (Inr (Some t), s1)
    \<longrightarrow> getSingleOrMultipleString E m filename pre s = (Inr (PStr t), s1))
   \<and> (getStringStream E m filename pre s = (Inl e, s1)
    \<longrightarrow> getSingleOrMultipleString E m filename pre s = (Inl e, s1))"
proof (intro conjI impI)
  assume a: "ole_exists (ole m) (fixPath m filename pre @ ''0102'')
      \<and> ole_openstream (ole m) (fixPath m filename pre @ ''0102'') = Inr b"
  then have g: "getStream m (PathStr (fixPath m filename pre @ ''0102'')) False s = (Inr (Some b), s)"
    by (intro getStream_present) (simp_all add: fixPath_def)
  show "getSingleOrMultipleBinary m filename pre s = (Inr (PBytes b), s)"
    unfolding getSingleOrMultipleBinary_def Let_def bind_def g by (simp add: return_def)
next
  assume n: "\<not> ole_exists (ole m) (fixPath m filename pre @ ''0102'')"
  have g: "getStream m (PathStr (fixPath m filename pre @ ''0102'')) False s
      = (Inr None, s\<lparr>logged := logged s @
                    [(INFO, StreamNotFound (fixPath m filename pre @ ''0102''))]\<rparr>)"
    using n getStream_absent[of m "PathStr (fixPath m filename pre @ ''0102'')" False s]
    by (simp add: fixPath_def)
  show "getSingleOrMultipleBinary m filename pre s =
          bind (getMultipleBinary m (PathStr (fixPath m filename pre)) False)
               (\<lambda>r. return (case r of None \<Rightarrow> PNone | Some xs \<Rightarrow> PList (map pyopt xs)))
               (s\<lparr>logged := logged s @
                    [(INFO, StreamNotFound (fixPath m filename pre @ ''0102''))]\<rparr>)"
    unfolding getSingleOrMultipleBinary_def Let_def by (simp add: bind_def g)
next
  assume a: "areStringsUnicode E m s = (Inr True, s1)
      \<and> ole_exists (ole m) (fixPath m filename pre @ ''001F'')
      \<and> ole_openstream (ole m) (fixPath m filename pre @ ''001F'') = Inr b"
  have "getStringStream E m (PathStr (fixPath m filename pre)) False s =
           (case decode E ''utf-16-le'' b of
              Inl e \<Rightarrow> (Inl e, s1)
            | Inr t \<Rightarrow> (Inr (Some t), s1))"
    using a getStringStream_unicode_present[of E m s s1 "PathStr (fixPath m filename pre)" False b]
    by (simp add: fixPath_fixed)
  then show "getSingleOrMultipleString E m filename pre s =
          (case decode E ''utf-16-le'' b of
             Inl e \<Rightarrow> (Inl e, s1)
           | Inr t \<Rightarrow> (Inr (PStr t), s1))"
    by (cases "decode E ''utf-16-le'' b")
       (simp_all add: getSingleOrMultipleString_cases)
next
  assume a: "areStringsUnicode E m s = (Inr False, s1)
      \<and> ole_exists (ole m) (fixPath m filename pre @ ''001E'')
      \<and> ole_openstream (ole m) (fixPath m filename pre @ ''001E'') = Inr b
      \<and> stringEncoding E m s1 = (re, s2)"
  have "getStringStream E m (PathStr (fixPath m filename pre)) False s =
           (case re of
              Inl e \<Rightarrow> (Inl e, s2)
            | Inr enc \<Rightarrow>
                (case decode E enc b of
                   Inl e \<Rightarrow> (Inl e, s2)
                 | Inr t \<Rightarrow> (Inr (Some t), s2)))"
    using a getStringStream_legacy_present[of E m s s1 "PathStr (fixPath m filename pre)" False b re s2]
    by (simp add: fixPath_fixed)
  then show "getSingleOrMultipleString E m filename pre s =
          (case re of
             Inl e \<Rightarrow> (Inl e, s2)
           | Inr enc \<Rightarrow>
               (case decode E enc b of
                  Inl e \<Rightarrow> (Inl e, s2)
                | Inr t \<Rightarrow> (Inr (PStr t), s2)))"
    by (cases re; cases "decode E (projr re) b")
       (simp_all add: getSingleOrMultipleString_cases)
next
  assume "getStringStream E m filename pre s = (Inr None, s1)"
  then show "getSingleOrMultipleString E m filename pre s =
          bind (getMultipleString E m (PathStr (fixPath m filename pre)) False)
               (\<lambda>r. return (PList (map PStr r))) s1"
    by (simp add: getSingleOrMultipleString_cases getStringStream_fixed)
next
  assume "getStringStream E m filename pre s = (Inr (Some t), s1)"
  then show "getSingleOrMultipleString E m filename pre s = (Inr (PStr t), s1)"
    by (simp add: getSingleOrMultipleString_cases getStringStream_fixed)
next
  assume "getStringStream E m filename pre s = (Inl e, s1)"
  then show "getSingleOrMultipleString E m filename pre s = (Inl e, s1)"
    by (simp add: getSingleOrMultipleString_cases getStringStream_fixed)
qed

theorem single_valued_wins_witness:
  "getSingleOrMultipleBinary demo_both (PathStr ''__substg1.0_0001'') True (init_lazy demo_both)
     = (Inr (PBytes b6), init_lazy demo_both)"
proof -
  have "ole_exists (ole demo_both) (fixPath demo_both (PathStr ''__substg1.0_0001'') True @ ''0102'')
      \<and> ole_openstream (ole demo_both)
            (fixPath demo_both (PathStr ''__substg1.0_0001'') True @ ''0102'') = Inr b6"
    by (simp add: demo_both_def msg_of_def ole_of_def fixPath_def)
  then show ?thesis
    using single_valued_wins[of demo_both "PathStr ''__substg1.0_0001''" True b6 "init_lazy demo_both"]
    by blast
qed

section \<open>Released back-references\<close>




section \<open>A container without the property-record stream\<close>

lemma props_absent_throw:
  assumes "\<not> ole_exists (ole m) (prefix m @ ''__properties_version1.0'')"
    and "props_cell s = None"
    and "STANDARDS_VIOLATION \<notin> set (errorBehavior m)"
  shows "props E m s = (Inl StandardViolationError,
           s\<lparr>logged := logged s @ [(INFO, StreamNotFound (prefix m @ ''__properties_version1.0''))]\<rparr>)"
proof -
  have g: "getStream m (PathStr ''__properties_version1.0'') True s
      = (Inr None, s\<lparr>logged := logged s @
            [(INFO, StreamNotFound (prefix m @ ''__properties_version1.0''))]\<rparr>)"
    using assms(1) getStream_absent[of m "PathStr ''__properties_version1.0''" True s]
    by (simp add: fixPath_str)
  show ?thesis
    unfolding props_def using assms(2,3) by (simp add: bind_def g raise_def)
qed


lemma props_cached: "props_cell s = Some p \<Longrightarrow> props E m s = (Inr p, s)"
  by (simp add: props_def)




section \<open>Encoding resolver\<close>

lemma props_success_cell: "props E m s = (Inr p, s') \<Longrightarrow> props_cell s' = Some p"
  unfolding props_def bind_def
  by (cases "props_cell s"; cases "getStream m (PathStr ''__properties_version1.0'') True s")
     (auto simp: Let_def return_def raise_def logger_def split: sum.splits if_splits)

lemma props_again: "props E m s = (Inr p, s') \<Longrightarrow> props E m s' = (Inr p, s')"
  by (intro props_cached props_success_cell)

lemma stringEncoding_success_attr:
  "stringEncoding E m s = (Inr enc, s') \<Longrightarrow> stringEncoding_attr s' = Some enc"
  unfolding stringEncoding_def bind_def
  by (cases "stringEncoding_attr s"; cases "areStringsUnicode E m s")
     (auto simp: set_stringEncoding_def lift_def return_def raise_def logger_def
           split: sum.splits if_splits prod.splits)

text \<open>
  Claim C6, as stated, fails in two ways that the code intends. A message opened with an
  overriding encoding has that encoding, also when the Unicode bit is set. And when the
  property store cannot be read (no property stream, error behaviour \<open>THROW\<close>) the code
  page property is certainly absent, yet the resolution raises \<open>StandardViolationError\<close>
  instead of falling back to the default.
\<close>

theorem stringEncoding_override_and_unreadable_store:
  "fst (areStringsUnicode (demo_deps unicode_store) demo_override (init_lazy demo_override))
     = Inr True
   \<and> stringEncoding (demo_deps unicode_store) demo_override (init_lazy demo_override)
     = (Inr ''cp1252'', init_lazy demo_override)
   \<and> stringEncoding (demo_deps []) (demo_no_props []) (init_lazy (demo_no_props []))
     = (Inl StandardViolationError,
        (init_lazy (demo_no_props []))\<lparr>logged :=
           [(INFO, StreamNotFound ''__properties_version1.0'')]\<rparr>)"
  by (simp add: stringEncoding_def areStringsUnicode_def getPropertyVal_def props_def
      getStream_def exists_def fixPath_def init_lazy_def bind_def return_def raise_def
      logger_def PropertiesStore_def demo_deps_def unicode_store_def getValue_def
      getProperties_def startswith_def demo_override_def demo_no_props_def msg_of_def
      ole_of_def Let_def)

text \<open>
  Claim C6, amended. Once an encoding is set, by an override at construction or by an
  earlier resolution, it is returned as it is and nothing is read again. Otherwise, when
  the property store can be read and the store-support mask is an integer: the strings are
  Unicode exactly when bit \<open>0x40000\<close> of the mask is set (the mask counting as 0 when the
  property is missing), and this is decided once; for Unicode strings the encoding is
  \<open>utf-16-le\<close>; otherwise, without a code page property the encoding is \<open>iso-8859-15\<close>,
  a warning is logged and nothing is raised; with a code page property the encoding is
  what the code page table gives for its value, an unknown code page being an error.
\<close>

theorem stringEncoding_resolution:
  "(stringEncoding_attr s = Some enc \<longrightarrow> stringEncoding E m s = (Inr enc, s))
   \<and> (stringEncoding E m s = (Inr enc, s') \<longrightarrow> stringEncoding E' m' s' = (Inr enc, s'))
   \<and> (areStringsUnicode_cell s = Some u \<longrightarrow> areStringsUnicode E m s = (Inr u, s))
   \<and> (areStringsUnicode_cell s = None \<and> props E m s = (Inr p, s1)
        \<and> (case getValue p ''340D0003'' of None \<Rightarrow> PInt 0 | Some v \<Rightarrow> v) = PInt n \<longrightarrow>
        areStringsUnicode E m s
          = (Inr (n AND 0x40000 \<noteq> 0), s1\<lparr>areStringsUnicode_cell := Some (n AND 0x40000 \<noteq> 0)\<rparr>))
   \<and> (stringEncoding_attr s = None \<and> areStringsUnicode E m s = (Inr True, s1) \<longrightarrow>
        stringEncoding E m s = (Inr ''utf-16-le'', s1\<lparr>stringEncoding_attr := Some ''utf-16-le''\<rparr>))
   \<and> (stringEncoding_attr s = None \<and> areStringsUnicode E m s = (Inr False, s1)
        \<and> props E m s1 = (Inr p, s2) \<and> \<not> contains p ''3FFD0003'' \<longrightarrow>
        stringEncoding E m s
          = (Inr ''iso-8859-15'',
             s2\<lparr>logged := logged s2 @ [(WARNING, EncodingNotFound)],
                stringEncoding_attr := Some ''iso-8859-15''\<rparr>))
   \<and> (stringEncoding_attr s = None \<and> areStringsUnicode E m s = (Inr False, s1)
        \<and> props E m s1 = (Inr p, s2) \<and> contains p ''3FFD0003'' \<longrightarrow>
        stringEncoding E m s
          = (case lookupCodePage E (case getValue p ''3FFD0003'' of None \<Rightarrow> PNone | Some v \<Rightarrow> v) of
               Inl e \<Rightarrow> (Inl e, s2)
             | Inr c \<Rightarrow> (Inr c, s2\<lparr>stringEncoding_attr := Some c\<rparr>)))
   \<and> lookupCodePage E (PInt cp)
        = (case map_of (codePages E) cp of None \<Rightarrow> Inl UnsupportedEncodingError | Some c \<Rightarrow> Inr c)"
proof (intro conjI impI)
  show "stringEncoding_attr s = Some enc \<Longrightarrow> stringEncoding E m s = (Inr enc, s)"
    by (simp add: stringEncoding_def)
  show "stringEncoding E m s = (Inr enc, s') \<Longrightarrow> stringEncoding E' m' s' = (Inr enc, s')"
    using stringEncoding_success_attr[of E m s enc s'] by (simp add: stringEncoding_def)
  show "areStringsUnicode_cell s = Some u \<Longrightarrow> areStringsUnicode E m s = (Inr u, s)"
    by (simp add: areStringsUnicode_def)
  show "lookupCodePage E (PInt cp)
        = (case map_of (codePages E) cp of None \<Rightarrow> Inl UnsupportedEncodingError | Some c \<Rightarrow> Inr c)"
    by (simp add: lookupCodePage_def)
next
  assume a: "areStringsUnicode_cell s = None \<and> props E m s = (Inr p, s1)
        \<and> (case getValue p ''340D0003'' of None \<Rightarrow> PInt 0 | Some v \<Rightarrow> v) = PInt n"
  then show "areStringsUnicode E m s
          = (Inr (n AND 0x40000 \<noteq> 0), s1\<lparr>areStringsUnicode_cell := Some (n AND 0x40000 \<noteq> 0)\<rparr>)"
    by (simp add: areStringsUnicode_def getPropertyVal_def bind_def return_def)
next
  assume a: "stringEncoding_attr s = None \<and> areStringsUnicode E m s = (Inr True, s1)"
  then show "stringEncoding E m s
      = (Inr ''utf-16-le'', s1\<lparr>stringEncoding_attr := Some ''utf-16-le''\<rparr>)"
    by (simp add: stringEncoding_def bind_def set_stringEncoding_def)
next
  assume a: "stringEncoding_attr s = None \<and> areStringsUnicode E m s = (Inr False, s1)
        \<and> props E m s1 = (Inr p, s2) \<and> \<not> contains p ''3FFD0003''"
  then show "stringEncoding E m s
          = (Inr ''iso-8859-15'',
             s2\<lparr>logged := logged s2 @ [(WARNING, EncodingNotFound)],
                stringEncoding_attr := Some ''iso-8859-15''\<rparr>)"
    by (simp add: stringEncoding_def bind_def set_stringEncoding_def logger_def)
next
  assume a: "stringEncoding_attr s = None \<and> areStringsUnicode E m s = (Inr False, s1)
        \<and> props E m s1 = (Inr p, s2) \<and> contains p ''3FFD0003''"
  then have p2: "props E m s2 = (Inr p, s2)"
    by (intro props_again[of E m s1]) simp
  from a show "stringEncoding E m s
          = (case lookupCodePage E (case getValue p ''3FFD0003'' of None \<Rightarrow> PNone | Some v \<Rightarrow> v) of
               Inl e \<Rightarrow> (Inl e, s2)
             | Inr c \<Rightarrow> (Inr c, s2\<lparr>stringEncoding_attr := Some c\<rparr>))"
    by (simp add: stringEncoding_def bind_def set_stringEncoding_def getPropertyVal_def p2
        return_def lift_def raise_def split: sum.splits)
qed

theorem stringEncoding_resolution_witness:
  "stringEncoding (demo_deps legacy_store) demo_plain (init_lazy demo_plain)
     = (Inr ''iso-8859-15'',
        (init_lazy demo_plain)\<lparr>props_cell := Some legacy_store,
                                 areStringsUnicode_cell := Some False,
                                 logged := [(WARNING, EncodingNotFound)],
                                 stringEncoding_attr := Some ''iso-8859-15''\<rparr>)
   \<and> stringEncoding (demo_deps legacy_store) demo_plain
        ((init_lazy demo_plain)\<lparr>props_cell := Some legacy_store,
                                 areStringsUnicode_cell := Some False,
                                 logged := [(WARNING, EncodingNotFound)],
                                 stringEncoding_attr := Some ''iso-8859-15''\<rparr>)
     = (Inr ''iso-8859-15'',
        (init_lazy demo_plain)\<lparr>props_cell := Some legacy_store,
                                 areStringsUnicode_cell := Some False,
                                 logged := [(WARNING, EncodingNotFound)],
                                 stringEncoding_attr := Some ''iso-8859-15''\<rparr>)"
proof -
  let ?E = "demo_deps legacy_store"
  let ?INI = "init_lazy demo_plain"
  let ?SP = "?INI\<lparr>props_cell := Some legacy_store\<rparr>"
  let ?SU = "?INI\<lparr>props_cell := Some legacy_store, areStringsUnicode_cell := Some False\<rparr>"
  have c: "areStringsUnicode_cell ?INI = None" "stringEncoding_attr ?INI = None"
    by (simp_all add: init_lazy_def demo_plain_def msg_of_def)
  have p: "props ?E demo_plain ?INI = (Inr legacy_store, ?SP)"
    by (simp add: props_def getStream_def exists_def fixPath_def init_lazy_def bind_def
        return_def PropertiesStore_def demo_deps_def demo_plain_def msg_of_def ole_of_def Let_def)
  have v: "(case getValue legacy_store ''340D0003'' of None \<Rightarrow> PInt 0 | Some v \<Rightarrow> v) = PInt 0"
    by (simp add: legacy_store_def getValue_def getProperties_def startswith_def)
  have u: "areStringsUnicode ?E demo_plain ?INI = (Inr False, ?SU)"
    using stringEncoding_resolution[of ?INI enc ?E demo_plain s' E' m' u legacy_store ?SP 0]
          c p v
    by simp
  have p1: "props ?E demo_plain ?SU = (Inr legacy_store, ?SU)"
    by (simp add: props_def)
  have n: "\<not> contains legacy_store ''3FFD0003''"
    by (simp add: contains_def legacy_store_def startswith_def)
  have r: "stringEncoding ?E demo_plain ?INI
        = (Inr ''iso-8859-15'',
           ?SU\<lparr>logged := logged ?SU @ [(WARNING, EncodingNotFound)],
                stringEncoding_attr := Some ''iso-8859-15''\<rparr>)"
    using stringEncoding_resolution[of ?INI enc ?E demo_plain s' E' m' u legacy_store ?SU 0 ?SU]
          c u p1 n
    by blast
  let ?SF = "(init_lazy demo_plain)\<lparr>props_cell := Some legacy_store,
                                 areStringsUnicode_cell := Some False,
                                 logged := [(WARNING, EncodingNotFound)],
                                 stringEncoding_attr := Some ''iso-8859-15''\<rparr>"
  have e: "?SU\<lparr>logged := logged ?SU @ [(WARNING, EncodingNotFound)],
                stringEncoding_attr := Some ''iso-8859-15''\<rparr> = ?SF"
    by (simp add: init_lazy_def)
  have first: "stringEncoding ?E demo_plain ?INI = (Inr ''iso-8859-15'', ?SF)"
    using r e by simp
  have "stringEncoding_attr ?SF = Some ''iso-8859-15''"
    by simp
  then have second: "stringEncoding ?E demo_plain ?SF = (Inr ''iso-8859-15'', ?SF)"
    using stringEncoding_resolution[of ?SF "''iso-8859-15''" ?E demo_plain] by blast
  from first second show ?thesis
    by (rule conjI)
qed

section \<open>Prefix scope\<close>

lemma fixPath_prefixed: "fixPath m X True = prefix m @ msgPathToString X"
  by (simp add: fixPath_def)

lemma exists_prefixed: "exists m X True = ole_exists (ole m) (prefix m @ msgPathToString X)"
  by (simp add: exists_def fixPath_def)

lemma getStream_prefixed:
  "getStream m X True s =
     (if ole_exists (ole m) (prefix m @ msgPathToString X)
      then (case ole_openstream (ole m) (prefix m @ msgPathToString X) of
              Inl e \<Rightarrow> (Inl e, s)
            | Inr b \<Rightarrow> (Inr (Some b), s))
      else (Inr None,
            s\<lparr>logged := logged s @ [(INFO, StreamNotFound (prefix m @ msgPathToString X))]\<rparr>))"
  by (simp add: getStream_def exists_def fixPath_def bind_def logger_def return_def raise_def
      split: sum.splits)

lemma getStream_agree:
  "agree_below (prefix m) pl c1 c2 \<Longrightarrow>
   getStream (m\<lparr>ole := c1\<rparr>) X True s = getStream (m\<lparr>ole := c2\<rparr>) X True s"
  by (simp add: getStream_prefixed agree_below_def)

lemma listDir_below_prefix:
  assumes "prefix m \<noteq> []" and "listDirRes s (streams, storages, True) = None"
    and "listDir m streams storages True s = (Inr entries, s')"
    and "x \<in> set entries"
  shows "length x > prefixLen m
         \<and> take (prefixLen m) x
             = (let pl = split (CHR ''/'') (prefix m) in if last pl = [] then butlast pl else pl)"
  using assms by (auto simp: listDir_def Let_def split: if_splits)

lemma areStringsUnicode_embedded_unicode:
  "areStringsUnicode (demo_deps unicode_store) demo_embedded_unicode (init_lazy demo_embedded_unicode)
     = (Inr True, (init_lazy demo_embedded_unicode)\<lparr>props_cell := Some unicode_store,
                                                      areStringsUnicode_cell := Some True\<rparr>)"
  by (simp add: areStringsUnicode_def getPropertyVal_def props_def getStream_def exists_def
      fixPath_def init_lazy_def bind_def return_def PropertiesStore_def demo_deps_def
      unicode_store_def getValue_def getProperties_def startswith_def demo_embedded_unicode_def
      msg_of_def ole_of_def Let_def)

text \<open>
  Claim C8. An embedded message at the prefix \<open>__attach_1/__substg1.0_3701000D/\<close> with
  Unicode strings. \<open>fixPath\<close>, \<open>exists\<close> and \<open>getStream\<close> resolve a path \<open>X\<close> to the
  prefix followed by \<open>X\<close>. The reads made by \<open>sExists\<close> and \<open>getMultipleString\<close> do not:
  they put the prefix in front of the name and then call \<open>exists\<close> or \<open>getStream\<close> with the
  prefix switched on, so the path asked for carries the prefix twice. The string stream
  \<open>__substg1.0_3001001F\<close> of the message exists, and \<open>sExists\<close> says it does not; the
  multi-valued string property \<open>0001\<close> of the message has one element, and
  \<open>getMultipleString\<close> returns the empty list.
\<close>

theorem prefixed_read_applies_prefix_twice:
  "fixPath demo_embedded_unicode (PathStr ''__substg1.0_3001001F'') True
     = ''__attach_1/__substg1.0_3701000D/__substg1.0_3001001F''
   \<and> exists demo_embedded_unicode (PathStr ''__substg1.0_3001001F'') True
   \<and> \<not> sExists demo_embedded_unicode (PathStr ''__substg1.0_3001'') True
   \<and> getMultipleString (demo_deps unicode_store) demo_embedded_unicode
         (PathStr ''__substg1.0_0001'') True (init_lazy demo_embedded_unicode)
     = (Inr [],
        (init_lazy demo_embedded_unicode)\<lparr>props_cell := Some unicode_store,
          areStringsUnicode_cell := Some True,
          logged := [(INFO, StreamNotFound
            ''__attach_1/__substg1.0_3701000D/__attach_1/__substg1.0_3701000D/__substg1.0_0001101F'')]\<rparr>)"
proof (intro conjI)
  show "fixPath demo_embedded_unicode (PathStr ''__substg1.0_3001001F'') True
     = ''__attach_1/__substg1.0_3701000D/__substg1.0_3001001F''"
    by (simp add: fixPath_def demo_embedded_unicode_def msg_of_def)
  show "exists demo_embedded_unicode (PathStr ''__substg1.0_3001001F'') True"
    by (simp add: exists_def fixPath_def demo_embedded_unicode_def msg_of_def ole_of_def)
  show "\<not> sExists demo_embedded_unicode (PathStr ''__substg1.0_3001'') True"
    by (simp add: sExists_def exists_def fixPath_def demo_embedded_unicode_def msg_of_def
        ole_of_def Let_def)
  show "getMultipleString (demo_deps unicode_store) demo_embedded_unicode
         (PathStr ''__substg1.0_0001'') True (init_lazy demo_embedded_unicode)
     = (Inr [],
        (init_lazy demo_embedded_unicode)\<lparr>props_cell := Some unicode_store,
          areStringsUnicode_cell := Some True,
          logged := [(INFO, StreamNotFound
            ''__attach_1/__substg1.0_3701000D/__attach_1/__substg1.0_3701000D/__substg1.0_0001101F'')]\<rparr>)"
    unfolding getMultipleString_def Let_def bind_def areStringsUnicode_embedded_unicode
    by (simp add: getStream_def exists_def fixPath_def demo_embedded_unicode_def msg_of_def
        ole_of_def bind_def return_def logger_def init_lazy_def)
qed

section \<open>Typed resolution order\<close>

lemma bind_InrE:
  "bind m f s = (Inr b, s') \<Longrightarrow> \<exists>a s1. m s = (Inr a, s1) \<and> f a s1 = (Inr b, s')"
  by (auto simp: bind_def split: prod.splits sum.splits)

lemma typed_contents_found:
  assumes "typed_contents E m x c s = (Inr (f, v), s')"
  shows "f"
proof (cases "c = []")
  case True
  with assms show ?thesis by (simp add: typed_contents_def return_def)
next
  case False
  show ?thesis
  proof (cases "length x < 4")
    case True
    with False assms show ?thesis by (simp add: typed_contents_def raise_def)
  next
    case l: False
    from assms False l obtain a s1 where
      k: "(case a of (extras, contents') \<Rightarrow>
             bind (lift (int16 E (lastn 4 x))) (\<lambda>t.
               bind (stringEncoding E m) (\<lambda>enc.
                 bind (lift (parseType E t contents' enc extras)) (\<lambda>r. return (True, r))))) s1
          = (Inr (f, v), s')"
      unfolding typed_contents_def Let_def
      by (simp only: if_False length_0_conv) (drule bind_InrE, blast)
    obtain extras contents' where a: "a = (extras, contents')" by (cases a)
    from k a have k1: "bind (lift (int16 E (lastn 4 x))) (\<lambda>t.
               bind (stringEncoding E m) (\<lambda>enc.
                 bind (lift (parseType E t contents' enc extras)) (\<lambda>r. return (True, r)))) s1
          = (Inr (f, v), s')"
      by simp
    from bind_InrE[OF k1] obtain t s2 where
      k2: "bind (stringEncoding E m) (\<lambda>enc.
                 bind (lift (parseType E t contents' enc extras)) (\<lambda>r. return (True, r))) s2
           = (Inr (f, v), s')"
      by blast
    from bind_InrE[OF k2] obtain enc s3 where
      k3: "bind (lift (parseType E t contents' enc extras)) (\<lambda>r. return (True, r)) s3
           = (Inr (f, v), s')"
      by blast
    from bind_InrE[OF k3] obtain r s4 where "return (True, r) s4 = (Inr (f, v), s')"
      by blast
    then show ?thesis by (simp add: return_def)
  qed
qed

lemma typed_stream_loop_skip:
  "(\<forall>y\<in>set before. \<not> (startswith y fn \<and> CHR ''-'' \<notin> set y))
   \<Longrightarrow> typed_stream_loop E m fn (before @ rest) s = typed_stream_loop E m fn rest s"
  by (induction before) auto

lemma typed_stream_loop_hit:
  assumes "startswith x fn" and "CHR ''-'' \<notin> set x"
    and "ole_exists (ole m) x" and "ole_openstream (ole m) x = Inr c"
  shows "typed_stream_loop E m fn (x # rest) s = typed_contents E m x c s"
proof -
  have g: "getStream m (PathStr x) False s = (Inr (Some c), s)"
    using assms(3,4) by (intro getStream_present) (simp_all add: fixPath_def)
  show ?thesis
    using assms(1,2) by (simp add: bind_def g)
qed

lemma typed_stream_loop_miss:
  assumes "startswith x fn" and "CHR ''-'' \<notin> set x" and "\<not> ole_exists (ole m) x"
  shows "typed_stream_loop E m fn [x] s
         = (Inr (False, PNone), s\<lparr>logged := logged s @ [(INFO, StreamNotFound x)]\<rparr>)"
proof -
  have g: "getStream m (PathStr x) False s
           = (Inr None, s\<lparr>logged := logged s @ [(INFO, StreamNotFound x)]\<rparr>)"
    using assms(3) getStream_absent[of m "PathStr x" False s] by (simp add: fixPath_def)
  show ?thesis
    using assms(1,2) by (simp add: bind_def g return_def)
qed

lemma typed_stream_loop_none:
  "(\<forall>y\<in>set cands. \<not> (startswith y fn \<and> CHR ''-'' \<notin> set y))
   \<Longrightarrow> typed_stream_loop E m fn cands s = (Inr (False, PNone), s)"
  by (induction cands) (auto simp: return_def)

lemma hex_digits_upper: "\<forall>c\<in>set ''0123456789abcdefABCDEF''. ishex (upper_char c)"
  by code_simp

lemma ishex_upper_char: "ishex c \<Longrightarrow> ishex (upper_char c)"
  using hex_digits_upper unfolding ishex_def by blast

lemma verifyPropertyId_ok:
  "length ident = 4 \<Longrightarrow> list_all ishex ident \<Longrightarrow> verifyPropertyId ident = return ()"
  by (simp add: verifyPropertyId_def)

lemma verifyPropertyId_upper:
  "length ident = 4 \<Longrightarrow> list_all ishex ident \<Longrightarrow> verifyPropertyId (upper ident) = return ()"
  by (simp add: verifyPropertyId_def upper_def list_all_iff ishex_upper_char)

lemma verifyType_ok:
  "t \<in> set (VARIABLE_LENGTH_PROPS_STRING E) \<or> t \<in> set (FIXED_LENGTH_PROPS_STRING E)
   \<Longrightarrow> verifyType E (Some t) = return ()"
  by (simp add: verifyType_def)

lemma verifyType_None: "verifyType E None = return ()"
  by (simp add: verifyType_def)

lemma bind_return_unit: "bind (return a) f = f a"
  by (rule ext) (simp add: bind_def return_def)

lemma getPropertyVal_cases:
  "getPropertyVal E m tag PNone s =
     (case props E m s of
        (Inl e, s') \<Rightarrow> (Inl e, s')
      | (Inr p, s') \<Rightarrow> (Inr (case getValue p tag of None \<Rightarrow> PNone | Some v \<Rightarrow> v), s'))"
  by (simp add: getPropertyVal_def bind_def return_def split: prod.splits sum.splits)

lemma getTypedProperty_value:
  assumes "length ident = 4" and "list_all ishex ident"
    and "ty = None \<or> (\<exists>t. ty = Some t \<and> (t \<in> set (VARIABLE_LENGTH_PROPS_STRING E)
                                         \<or> t \<in> set (FIXED_LENGTH_PROPS_STRING E)))"
  shows "getTypedProperty E m (upper ident) ty s =
           (case props E m s of
              (Inl e, s') \<Rightarrow> (Inl e, s')
            | (Inr p, s') \<Rightarrow>
                (Inr (case getValue p (upper ident @ (case ty of None \<Rightarrow> [] | Some t \<Rightarrow> t)) of
                        None \<Rightarrow> (False, PNone)
                      | Some v \<Rightarrow> (True, v)), s'))"
proof -
  have tag: "(case ty of
               None \<Rightarrow> return (upper ident)
             | Some t \<Rightarrow> if t = [] then return (upper ident)
                         else bind (verifyType E ty) (\<lambda>_. return (upper ident @ t)))
             = return (upper ident @ (case ty of None \<Rightarrow> [] | Some t \<Rightarrow> t))"
    using assms(3) by (auto simp: verifyType_ok bind_return_unit)
  show ?thesis
    unfolding getTypedProperty_def verifyPropertyId_upper[OF assms(1,2)] bind_return_unit tag
    by (simp add: bind_def return_def split: prod.splits sum.splits)
qed

lemma fallback_value:
  assumes "length ident = 4" and "list_all ishex ident"
    and "ty = None \<or> (\<exists>t. ty = Some t \<and> (t \<in> set (VARIABLE_LENGTH_PROPS_STRING E)
                                         \<or> t \<in> set (FIXED_LENGTH_PROPS_STRING E)))"
  shows "bind (getTypedProperty E m (upper ident) ty)
           (\<lambda>(found', result'). return (if found' then result' else PNone)) s1
         = (case props E m s1 of
              (Inl e, s') \<Rightarrow> (Inl e, s')
            | (Inr p, s') \<Rightarrow>
                (Inr (case getValue p (upper ident @ (case ty of None \<Rightarrow> [] | Some t \<Rightarrow> t)) of
                        None \<Rightarrow> PNone
                      | Some v \<Rightarrow> v), s'))"
  unfolding bind_def getTypedProperty_value[OF assms]
  by (simp add: return_def split: prod.splits sum.splits option.splits)

lemma getTypedData_found:
  assumes "length ident = 4" and "list_all ishex ident"
    and "getTypedStream E m (PathStr (''__substg1.0_'' @ upper ident)) pre ty s = (Inr (True, v), s1)"
  shows "getTypedData E m ident ty pre s = (Inr v, s1)"
  using assms(3)
  unfolding getTypedData_def verifyPropertyId_ok[OF assms(1,2)] bind_return_unit Let_def
  by (simp add: bind_def return_def)

lemma getTypedData_error:
  assumes "length ident = 4" and "list_all ishex ident"
    and "getTypedStream E m (PathStr (''__substg1.0_'' @ upper ident)) pre ty s = (Inl e, s1)"
  shows "getTypedData E m ident ty pre s = (Inl e, s1)"
  using assms(3)
  unfolding getTypedData_def verifyPropertyId_ok[OF assms(1,2)] bind_return_unit Let_def
  by (simp add: bind_def)

lemma getTypedData_not_found:
  assumes "length ident = 4" and "list_all ishex ident"
    and "ty = None \<or> (\<exists>t. ty = Some t \<and> (t \<in> set (VARIABLE_LENGTH_PROPS_STRING E)
                                         \<or> t \<in> set (FIXED_LENGTH_PROPS_STRING E)))"
    and "getTypedStream E m (PathStr (''__substg1.0_'' @ upper ident)) pre ty s = (Inr (False, v), s1)"
  shows "getTypedData E m ident ty pre s
         = getPropertyVal E m (upper ident @ (case ty of None \<Rightarrow> [] | Some t \<Rightarrow> t)) PNone s1"
proof -
  have "getTypedData E m ident ty pre s
        = bind (getTypedProperty E m (upper ident) ty)
            (\<lambda>(found', result'). return (if found' then result' else PNone)) s1"
    using assms(4)
    unfolding getTypedData_def verifyPropertyId_ok[OF assms(1,2)] bind_return_unit Let_def
    by (subst bind_def) simp
  then show ?thesis
    by (simp only: fallback_value[OF assms(1,2,3)] getPropertyVal_cases)
qed

lemma getTypedData_via_contents:
  assumes "length ident = 4" and "list_all ishex ident"
    and "getTypedStream E m (PathStr (''__substg1.0_'' @ upper ident)) pre ty s
         = typed_contents E m x c s0"
  shows "getTypedData E m ident ty pre s
         = (case typed_contents E m x c s0 of
              (Inl e, s') \<Rightarrow> (Inl e, s')
            | (Inr fv, s') \<Rightarrow> (Inr (snd fv), s'))"
proof (cases "typed_contents E m x c s0")
  case (Pair r s')
  show ?thesis
  proof (cases r)
    case (Inl e)
    with Pair assms(3) show ?thesis
      by (simp add: getTypedData_error[OF assms(1,2)])
  next
    case (Inr fv)
    obtain f v where fv: "fv = (f, v)" by (cases fv)
    with Pair Inr have "f" by (auto intro: typed_contents_found)
    with Pair Inr fv assms(3) show ?thesis
      by (simp add: getTypedData_found[OF assms(1,2)])
  qed
qed

lemma getTypedStream_typed:
  "t \<in> set (VARIABLE_LENGTH_PROPS_STRING E) \<or> t \<in> set (FIXED_LENGTH_PROPS_STRING E)
   \<Longrightarrow> getTypedStream E m filename pre (Some t) s
       = typed_stream_loop E m (fixPath m filename pre) [fixPath m filename pre @ t] s"
  unfolding getTypedStream_def Let_def
  by (simp only: verifyType_ok bind_return_unit option.case)

lemma getTypedStream_untyped:
  "slistDir m True False True s = (Inr cands, s0)
   \<Longrightarrow> getTypedStream E m filename pre None s
       = typed_stream_loop E m (fixPath m filename pre) cands s0"
  unfolding getTypedStream_def Let_def verifyType_None bind_return_unit
  by (simp add: bind_def)

lemma startswith_append: "startswith (p @ t) p"
  by (simp add: startswith_def)

lemma typed_contents_empty: "typed_contents E m x [] s = (Inr (True, PNone), s)"
  by (simp add: typed_contents_def return_def)

lemma getTypedData_stream_wins:
  assumes "length ident = 4" and "list_all ishex ident"
    and "getTypedStream E m (PathStr (''__substg1.0_'' @ upper ident)) pre ty s
         = typed_contents E m x c s0"
  shows "getTypedData E m ident ty pre s = apfst (map_sum id snd) (typed_contents E m x c s0)"
  unfolding getTypedData_via_contents[OF assms]
  by (simp split: prod.splits sum.splits)

text \<open>
  Claim C2, counterexample. The message has no property-record stream and the default error
  behaviour; its only stream is \<open>__substg1.0_0037001F\<close>. For the identifier \<open>0017\<close> there is
  neither a stream nor an inline record, and \<open>_getTypedData\<close> does not return \<open>None\<close>: the
  fall-back to the property store raises \<open>StandardViolationError\<close>.
\<close>

theorem typed_data_without_property_stream:
  "slistDir (demo_no_props []) True False True (init_lazy (demo_no_props []))
     = (Inr [''__substg1.0_0037001F''], init_lazy (demo_no_props []))
   \<and> getTypedData (demo_deps []) (demo_no_props []) ''0017'' None True (init_lazy (demo_no_props []))
     = (Inl StandardViolationError,
        (init_lazy (demo_no_props []))
          \<lparr>logged := [(INFO, StreamNotFound ''__properties_version1.0'')]\<rparr>)"
proof -
  let ?m = "demo_no_props []"
  let ?INI = "init_lazy ?m"
  have l: "slistDir ?m True False True ?INI = (Inr [''__substg1.0_0037001F''], ?INI)"
    by (simp add: slistDir_def listDir_def bind_def return_def demo_no_props_def msg_of_def
        ole_of_def init_lazy_def Let_def)
  have id: "length ''0017'' = 4" "list_all ishex ''0017''"
    by (simp_all add: ishex_def)
  have up: "upper ''0017'' = ''0017''"
    by (simp add: upper_def upper_char_def)
  have px: "prefix ?m = []"
    by (simp add: demo_no_props_def msg_of_def)
  have "getTypedStream (demo_deps []) ?m (PathStr (''__substg1.0_'' @ upper ''0017'')) True None ?INI
        = (Inr (False, PNone), ?INI)"
    unfolding getTypedStream_untyped[OF l]
    by (rule typed_stream_loop_none)
       (simp add: up fixPath_def px startswith_def)
  then have "getTypedData (demo_deps []) ?m ''0017'' None True ?INI
        = getPropertyVal (demo_deps []) ?m (upper ''0017'') PNone ?INI"
    using getTypedData_not_found[OF id, of None "demo_deps []" ?m True ?INI PNone ?INI]
    by simp
  moreover have "props (demo_deps []) ?m ?INI
        = (Inl StandardViolationError,
           ?INI\<lparr>logged := logged ?INI @ [(INFO, StreamNotFound (prefix ?m @ ''__properties_version1.0''))]\<rparr>)"
    by (rule props_absent_throw)
       (simp_all add: demo_no_props_def msg_of_def ole_of_def init_lazy_def)
  ultimately have "getTypedData (demo_deps []) ?m ''0017'' None True ?INI
        = (Inl StandardViolationError,
           ?INI\<lparr>logged := logged ?INI @ [(INFO, StreamNotFound (prefix ?m @ ''__properties_version1.0''))]\<rparr>)"
    by (simp add: getPropertyVal_cases)
  then have "getTypedData (demo_deps []) ?m ''0017'' None True ?INI
        = (Inl StandardViolationError,
           ?INI\<lparr>logged := [(INFO, StreamNotFound ''__properties_version1.0'')]\<rparr>)"
    by (simp add: px init_lazy_def)
  with l show ?thesis by blast
qed

text \<open>
  Claim C2, amended. The identifier is four hexadecimal digits and is used in upper case;
  \<open>fn\<close> is the name \<open>__substg1.0_\<close> followed by the identifier, below the prefix of the
  message when the prefix is asked for. A type, when given, is one of the known type codes.

  With a type \<open>t\<close>: if the path \<open>fn @ t\<close> has no \<open>-\<close> and the stream exists, the result is
  what the typed reading of exactly that stream gives, its value or its error, and the
  property store is not asked: the stream wins. If the stream does not exist, or the path
  has a \<open>-\<close>, the result is that of \<open>getPropertyVal\<close> for the tag identifier-and-type with
  the default \<open>None\<close>.

  Without a type: the result comes from the first listed stream whose path starts with
  \<open>fn\<close> and has no \<open>-\<close>; when the listing has no such stream, the result is that of
  \<open>getPropertyVal\<close> for the identifier with the default \<open>None\<close>.

  An empty stream counts as found and gives \<open>None\<close>. The fall-back gives the inline value
  of the record, \<open>None\<close> when the store has no inline value under the tag, and the error of
  the property store when the store cannot be read.
\<close>

theorem typed_resolution_order:
  assumes "length ident = 4" and "list_all ishex ident"
    and "fn = fixPath m (PathStr (''__substg1.0_'' @ upper ident)) pre"
  shows
    "((t \<in> set (VARIABLE_LENGTH_PROPS_STRING E) \<or> t \<in> set (FIXED_LENGTH_PROPS_STRING E))
        \<and> CHR ''-'' \<notin> set (fn @ t)
        \<and> ole_exists (ole m) (fn @ t) \<and> ole_openstream (ole m) (fn @ t) = Inr c
      \<longrightarrow> getTypedData E m ident (Some t) pre s
          = apfst (map_sum id snd) (typed_contents E m (fn @ t) c s))
   \<and> ((t \<in> set (VARIABLE_LENGTH_PROPS_STRING E) \<or> t \<in> set (FIXED_LENGTH_PROPS_STRING E))
        \<and> CHR ''-'' \<notin> set (fn @ t)
        \<and> \<not> ole_exists (ole m) (fn @ t)
      \<longrightarrow> getTypedData E m ident (Some t) pre s
          = getPropertyVal E m (upper ident @ t) PNone
              (s\<lparr>logged := logged s @ [(INFO, StreamNotFound (fn @ t))]\<rparr>))
   \<and> ((t \<in> set (VARIABLE_LENGTH_PROPS_STRING E) \<or> t \<in> set (FIXED_LENGTH_PROPS_STRING E))
        \<and> CHR ''-'' \<in> set (fn @ t)
      \<longrightarrow> getTypedData E m ident (Some t) pre s
          = getPropertyVal E m (upper ident @ t) PNone s)
   \<and> (slistDir m True False True s = (Inr (before @ x # after), sl)
        \<and> (\<forall>y\<in>set before. \<not> (startswith y fn \<and> CHR ''-'' \<notin> set y))
        \<and> startswith x fn \<and> CHR ''-'' \<notin> set x
        \<and> ole_exists (ole m) x \<and> ole_openstream (ole m) x = Inr c
      \<longrightarrow> getTypedData E m ident None pre s
          = apfst (map_sum id snd) (typed_contents E m x c sl))
   \<and> (slistDir m True False True s = (Inr cands, sl)
        \<and> (\<forall>y\<in>set cands. \<not> (startswith y fn \<and> CHR ''-'' \<notin> set y))
      \<longrightarrow> getTypedData E m ident None pre s
          = getPropertyVal E m (upper ident) PNone sl)
   \<and> typed_contents E m x [] sl = (Inr (True, PNone), sl)"
proof (intro conjI impI)
  let ?F = "PathStr (''__substg1.0_'' @ upper ident)"
  note id = assms(1,2)
  {
    assume a: "(t \<in> set (VARIABLE_LENGTH_PROPS_STRING E) \<or> t \<in> set (FIXED_LENGTH_PROPS_STRING E))
        \<and> CHR ''-'' \<notin> set (fn @ t)
        \<and> ole_exists (ole m) (fn @ t) \<and> ole_openstream (ole m) (fn @ t) = Inr c"
    then have "typed_stream_loop E m fn [fn @ t] s = typed_contents E m (fn @ t) c s"
      by (intro typed_stream_loop_hit) (simp_all add: startswith_append)
    with a have "getTypedStream E m ?F pre (Some t) s = typed_contents E m (fn @ t) c s"
      by (simp only: getTypedStream_typed assms(3)[symmetric])
    then show "getTypedData E m ident (Some t) pre s
          = apfst (map_sum id snd) (typed_contents E m (fn @ t) c s)"
      by (rule getTypedData_stream_wins[OF id])
  next
    assume a: "(t \<in> set (VARIABLE_LENGTH_PROPS_STRING E) \<or> t \<in> set (FIXED_LENGTH_PROPS_STRING E))
        \<and> CHR ''-'' \<notin> set (fn @ t)
        \<and> \<not> ole_exists (ole m) (fn @ t)"
    then have "typed_stream_loop E m fn [fn @ t] s
         = (Inr (False, PNone), s\<lparr>logged := logged s @ [(INFO, StreamNotFound (fn @ t))]\<rparr>)"
      by (intro typed_stream_loop_miss) (simp_all add: startswith_append)
    with a have "getTypedStream E m ?F pre (Some t) s
         = (Inr (False, PNone), s\<lparr>logged := logged s @ [(INFO, StreamNotFound (fn @ t))]\<rparr>)"
      by (simp only: getTypedStream_typed assms(3)[symmetric])
    from getTypedData_not_found[OF id _ this] a
    show "getTypedData E m ident (Some t) pre s
          = getPropertyVal E m (upper ident @ t) PNone
              (s\<lparr>logged := logged s @ [(INFO, StreamNotFound (fn @ t))]\<rparr>)"
      by simp
  next
    assume a: "(t \<in> set (VARIABLE_LENGTH_PROPS_STRING E) \<or> t \<in> set (FIXED_LENGTH_PROPS_STRING E))
        \<and> CHR ''-'' \<in> set (fn @ t)"
    then have "typed_stream_loop E m fn [fn @ t] s = (Inr (False, PNone), s)"
      by (intro typed_stream_loop_none) simp
    with a have "getTypedStream E m ?F pre (Some t) s = (Inr (False, PNone), s)"
      by (simp only: getTypedStream_typed assms(3)[symmetric])
    from getTypedData_not_found[OF id _ this] a
    show "getTypedData E m ident (Some t) pre s = getPropertyVal E m (upper ident @ t) PNone s"
      by simp
  next
    assume a: "slistDir m True False True s = (Inr (before @ x # after), sl)
        \<and> (\<forall>y\<in>set before. \<not> (startswith y fn \<and> CHR ''-'' \<notin> set y))
        \<and> startswith x fn \<and> CHR ''-'' \<notin> set x
        \<and> ole_exists (ole m) x \<and> ole_openstream (ole m) x = Inr c"
    then have "typed_stream_loop E m fn (before @ x # after) sl = typed_stream_loop E m fn (x # after) sl"
      by (intro typed_stream_loop_skip) blast
    also from a have "\<dots> = typed_contents E m x c sl"
      by (intro typed_stream_loop_hit) simp_all
    finally have "getTypedStream E m ?F pre None s = typed_contents E m x c sl"
      using a by (simp only: getTypedStream_untyped assms(3)[symmetric])
    then show "getTypedData E m ident None pre s
          = apfst (map_sum id snd) (typed_contents E m x c sl)"
      by (rule getTypedData_stream_wins[OF id])
  next
    assume a: "slistDir m True False True s = (Inr cands, sl)
        \<and> (\<forall>y\<in>set cands. \<not> (startswith y fn \<and> CHR ''-'' \<notin> set y))"
    then have "typed_stream_loop E m fn cands sl = (Inr (False, PNone), sl)"
      by (intro typed_stream_loop_none) blast
    with a have "getTypedStream E m ?F pre None s = (Inr (False, PNone), sl)"
      by (simp only: getTypedStream_untyped assms(3)[symmetric])
    from getTypedData_not_found[OF id _ this]
    show "getTypedData E m ident None pre s = getPropertyVal E m (upper ident) PNone sl"
      by simp
  next
    show "typed_contents E m x [] sl = (Inr (True, PNone), sl)"
      by (rule typed_contents_empty)
  }
qed

theorem typed_resolution_order_witness:
  "getValue typed_store ''0037'' = Some (PInt 7)
   \<and> getTypedData (demo_deps typed_store) demo_typed ''0037'' None True (init_lazy demo_typed)
     = (Inr (PBytes b6),
        (init_lazy demo_typed)
          \<lparr>props_cell := Some typed_store, areStringsUnicode_cell := Some True,
           stringEncoding_attr := Some ''utf-16-le''\<rparr>)
   \<and> getTypedData (demo_deps typed_store) demo_typed ''0037'' (Some ''0003'') True
        (init_lazy demo_typed)
     = (Inr (PInt 7),
        (init_lazy demo_typed)
          \<lparr>props_cell := Some typed_store,
           logged := [(INFO, StreamNotFound ''__substg1.0_00370003'')]\<rparr>)"
proof -
  let ?E = "demo_deps typed_store"
  let ?INI = "init_lazy demo_typed"
  let ?FN = "fixPath demo_typed (PathStr (''__substg1.0_'' @ upper ''0037'')) True"
  have id: "length ''0037'' = 4" "list_all ishex ''0037''"
    by (simp_all add: ishex_def)
  have up: "upper ''0037'' = ''0037''"
    by (simp add: upper_def upper_char_def)
  have fn: "?FN = ''__substg1.0_0037''"
    by (simp add: up fixPath_def demo_typed_def msg_of_def)
  have v: "getValue typed_store ''0037'' = Some (PInt 7)"
    by (simp add: getValue_def getProperties_def typed_store_def startswith_def)
  have l: "slistDir demo_typed True False True ?INI
           = (Inr ([''__properties_version1.0''] @ ''__substg1.0_0037001F'' # []), ?INI)"
    by (simp add: slistDir_def listDir_def bind_def return_def demo_typed_def msg_of_def
        ole_of_def init_lazy_def Let_def)
  have b: "\<forall>y\<in>set [''__properties_version1.0''].
             \<not> (startswith y ?FN \<and> CHR ''-'' \<notin> set y)"
    unfolding fn by (simp add: startswith_def)
  have x: "startswith ''__substg1.0_0037001F'' ?FN" "CHR ''-'' \<notin> set ''__substg1.0_0037001F''"
    unfolding fn by (simp_all add: startswith_def)
  have e: "ole_exists (ole demo_typed) ''__substg1.0_0037001F''"
    "ole_openstream (ole demo_typed) ''__substg1.0_0037001F'' = Inr b6"
    by (simp_all add: demo_typed_def msg_of_def ole_of_def)
  have tc: "typed_contents ?E demo_typed ''__substg1.0_0037001F'' b6 ?INI
            = (Inr (True, PBytes b6),
               ?INI\<lparr>props_cell := Some typed_store, areStringsUnicode_cell := Some True,
                     stringEncoding_attr := Some ''utf-16-le''\<rparr>)"
    by (simp add: typed_contents_def lastn_def lift_def stringEncoding_def areStringsUnicode_def
        set_stringEncoding_def getPropertyVal_def props_def getStream_def exists_def fixPath_def
        init_lazy_def bind_def return_def raise_def logger_def PropertiesStore_def demo_deps_def
        typed_store_def getValue_def getProperties_def startswith_def demo_typed_def msg_of_def
        ole_of_def b6_def Let_def)
  have "getTypedData ?E demo_typed ''0037'' None True ?INI
        = apfst (map_sum id snd) (typed_contents ?E demo_typed ''__substg1.0_0037001F'' b6 ?INI)"
    using typed_resolution_order[where ident = "''0037''" and m = demo_typed and pre = True
            and E = "?E" and s = "?INI" and before = "[''__properties_version1.0'']"
            and x = "''__substg1.0_0037001F''" and after = "[]" and sl = "?INI" and c = b6,
            OF id refl]
      l b x e
    by blast
  then have r1: "getTypedData ?E demo_typed ''0037'' None True ?INI
        = (Inr (PBytes b6),
           ?INI\<lparr>props_cell := Some typed_store, areStringsUnicode_cell := Some True,
                 stringEncoding_attr := Some ''utf-16-le''\<rparr>)"
    by (simp add: tc)
  have n: "CHR ''-'' \<notin> set (?FN @ ''0003'')" "\<not> ole_exists (ole demo_typed) (?FN @ ''0003'')"
    unfolding fn by (simp_all add: demo_typed_def msg_of_def ole_of_def)
  have t: "''0003'' \<in> set (VARIABLE_LENGTH_PROPS_STRING ?E)
           \<or> ''0003'' \<in> set (FIXED_LENGTH_PROPS_STRING ?E)"
    by (simp add: demo_deps_def)
  have "getTypedData ?E demo_typed ''0037'' (Some ''0003'') True ?INI
        = getPropertyVal ?E demo_typed (upper ''0037'' @ ''0003'') PNone
            (?INI\<lparr>logged := logged ?INI @ [(INFO, StreamNotFound (?FN @ ''0003''))]\<rparr>)"
    using typed_resolution_order[where ident = "''0037''" and m = demo_typed and pre = True
            and E = "?E" and s = "?INI" and t = "''0003''", OF id refl]
      n t
    by blast
  also have "\<dots> = (Inr (PInt 7),
           ?INI\<lparr>props_cell := Some typed_store,
                 logged := [(INFO, StreamNotFound ''__substg1.0_00370003'')]\<rparr>)"
    unfolding fn up
    by (simp add: getPropertyVal_def props_def getStream_def exists_def fixPath_def
        init_lazy_def bind_def return_def raise_def logger_def PropertiesStore_def demo_deps_def
        typed_store_def getValue_def getProperties_def startswith_def demo_typed_def msg_of_def
        ole_of_def Let_def)
  finally have r2: "getTypedData ?E demo_typed ''0037'' (Some ''0003'') True ?INI
        = (Inr (PInt 7),
           ?INI\<lparr>props_cell := Some typed_store,
                 logged := [(INFO, StreamNotFound ''__substg1.0_00370003'')]\<rparr>)" .
  show ?thesis
    using v r1 r2 by simp
qed


end
